theory Spec2Isabelle
  imports Complex_Main
begin

section \<open>JavaScript values\<close>

text \<open>
  A JavaScript number is a double. It is modelled by its exact mathematical value, a
  rational, or by one of the three non-finite values. \<open>JSON.parse\<close> yields \<open>PosInf\<close> for a
  literal beyond the double range such as \<open>1e999\<close>; \<open>NaN\<close> comes from arithmetic only.
  Both zeros are \<open>Finite 0\<close>.
\<close>

datatype jsnum = Finite rat | PosInf | NegInf | NaN

text \<open>
  The values \<open>JSON.parse\<close> can produce. An object is the list of its own properties in
  enumeration order. \<open>None\<close> of type \<open>jsval\<close> is \<open>undefined\<close>.
  Strings are sequences of 8-bit code units.
\<close>

datatype json =
    JNull
  | JBool bool
  | JNum jsnum
  | JStr string
  | JArr "json list"
  | JObj "(string \<times> json) list"

type_synonym jsval = "json option"

text \<open>
  Exceptions. \<open>Error\<close> is \<open>new Error(message)\<close> of the program itself, \<open>SyntaxError\<close> is what
  \<open>JSON.parse\<close> throws, \<open>AxiosError\<close> is the rejection of \<open>axios.get\<close> (no connection,
  timeout, a status outside 2xx). The others are raised by the engine or by Node:
  reading a property of \<open>null\<close> or \<open>undefined\<close>, calling what is not a function, failing to
  convert an object to a primitive, \<open>toISOString\<close> of an invalid date, and \<open>writeHead\<close> after
  the header has been stored.
\<close>

datatype js_error =
    Error string
  | SyntaxError string
  | AxiosError string
  | ReadOfNullish jsval string
  | NotAFunction string
  | NoPrimitive
  | InvalidTime
  | HeadersSent

text \<open>
  What the program takes from the JavaScript runtime without fixing it:
  \<^item> \<open>number_toString\<close>: \<open>Number::toString\<close> on a positive finite number (the shortest
    digits that read back as the same double);
  \<^item> \<open>date_iso\<close>: the value of \<open>new Date(v * 1000).toISOString()\<close> for a value \<open>v\<close>, or the
    exception it throws;
  \<^item> \<open>JSON_parse\<close>: the value of \<open>JSON.parse\<close> on a text, or the SyntaxError it throws;
  \<^item> \<open>engine_message\<close>: the \<open>message\<close> of an exception the engine raises.
\<close>

record runtime =
  number_toString :: "rat \<Rightarrow> string"
  date_iso :: "jsval \<Rightarrow> js_error + string"
  JSON_parse :: "string \<Rightarrow> js_error + json"
  engine_message :: "js_error \<Rightarrow> string"

fun message :: "runtime \<Rightarrow> js_error \<Rightarrow> string" where
  "message rt (Error m) = m"
| "message rt (SyntaxError m) = m"
| "message rt (AxiosError m) = m"
| "message rt e = engine_message rt e"

text \<open>
  \<open>v.k\<close> for the keys the program reads (\<open>data\<close>, \<open>BTC\<close>, \<open>quote\<close>, \<open>USD\<close>, \<open>price\<close>, \<open>name\<close>,
  ...), none of which is defined on a built-in prototype: an own property of an object,
  \<open>undefined\<close> on any other value, a TypeError on \<open>null\<close> and \<open>undefined\<close>.
\<close>

fun getProp :: "jsval \<Rightarrow> string \<Rightarrow> js_error + jsval" where
  "getProp None k = Inl (ReadOfNullish None k)"
| "getProp (Some JNull) k = Inl (ReadOfNullish (Some JNull) k)"
| "getProp (Some (JObj kvs)) k = Inr (map_of kvs k)"
| "getProp (Some v) k = Inr None"

definition then_res :: "js_error + 'a \<Rightarrow> ('a \<Rightarrow> js_error + 'b) \<Rightarrow> js_error + 'b" where
  "then_res m f = (case m of Inl e \<Rightarrow> Inl e | Inr v \<Rightarrow> f v)"

text \<open>A chain of property reads \<open>v.k1.k2...\<close>, from left to right.\<close>

fun read_path :: "jsval \<Rightarrow> string list \<Rightarrow> js_error + jsval" where
  "read_path v [] = Inr v"
| "read_path v (k # ks) = then_res (getProp v k) (\<lambda>v'. read_path v' ks)"

section \<open>Number.prototype.toFixed\<close>

definition digit :: "nat \<Rightarrow> char" where
  "digit d = ''0123456789'' ! d"

fun decimal :: "nat \<Rightarrow> string" where
  "decimal n = (if n < 10 then [digit n] else decimal (n div 10) @ [digit (n mod 10)])"

declare decimal.simps [simp del]

text \<open>\<open>Number::toString\<close> in radix 10.\<close>

fun Number_toString :: "runtime \<Rightarrow> jsnum \<Rightarrow> string" where
  "Number_toString rt NaN = ''NaN''"
| "Number_toString rt PosInf = ''Infinity''"
| "Number_toString rt NegInf = ''-Infinity''"
| "Number_toString rt (Finite x) =
     (if x = 0 then ''0''
      else if x < 0 then ''-'' @ number_toString rt (- x)
      else number_toString rt x)"

text \<open>
  \<open>x.toFixed(f)\<close> as ECMAScript defines it, for \<open>f \<le> 100\<close>: a number that is not finite
  is printed by \<open>Number::toString\<close>; the sign is split off; a magnitude of at least
  \<open>10^21\<close> is printed by \<open>Number::toString\<close>; otherwise \<open>n\<close> is the integer for which
  \<open>n / 10^f\<close> is closest to the magnitude (the larger one of two), and its decimal digits,
  padded with zeros on the left to \<open>f + 1\<close> digits, get a point before the last \<open>f\<close>.
\<close>

definition toFixed_digits :: "nat \<Rightarrow> rat \<Rightarrow> string" where
  "toFixed_digits f x =
     (let n = nat \<lfloor>x * 10 ^ f + 1 / 2\<rfloor>;
          m = (if n = 0 then ''0'' else decimal n)
      in if f \<noteq> 0 then
           (let m' = (if length m \<le> f then replicate (f + 1 - length m) (CHR ''0'') @ m else m);
                k = length m'
            in take (k - f) m' @ ''.'' @ drop (k - f) m')
         else m)"

fun toFixed :: "runtime \<Rightarrow> nat \<Rightarrow> jsnum \<Rightarrow> string" where
  "toFixed rt f (Finite x) =
     (let s = (if x < 0 then ''-'' else '''');
          a = (if x < 0 then - x else x)
      in s @ (if 10 ^ 21 \<le> a then Number_toString rt (Finite a) else toFixed_digits f a))"
| "toFixed rt f v = Number_toString rt v"

text \<open>
  The call \<open>v.toFixed(2)\<close> on a value: only a number has it. On \<open>null\<close> and
  \<open>undefined\<close> the property read throws; on anything else \<open>v.toFixed\<close> is \<open>undefined\<close> or
  (an own property of a parsed object) a value that is not a function, and the call
  throws. \<open>callee\<close> is the text of the expression, which the engine's message quotes.
\<close>

fun call_toFixed2 :: "runtime \<Rightarrow> string \<Rightarrow> jsval \<Rightarrow> js_error + string" where
  "call_toFixed2 rt callee None = Inl (ReadOfNullish None ''toFixed'')"
| "call_toFixed2 rt callee (Some JNull) = Inl (ReadOfNullish (Some JNull) ''toFixed'')"
| "call_toFixed2 rt callee (Some (JNum x)) = Inr (toFixed rt 2 x)"
| "call_toFixed2 rt callee (Some v) = Inl (NotAFunction callee)"

section \<open>The world outside the process\<close>

text \<open>
  The environment variable, what each upstream URL answers to \<open>axios.get\<close> (a rejection
  with its message, or a response with its parsed \<open>data\<close>), and the trace of what the
  process has done so far: outbound requests and console lines.
\<close>

datatype http_result = Rejected string | Response json

datatype event =
    HttpGet string "(string \<times> string) list" "(string \<times> string) list"
  | ConsoleError "string list"
  | ConsoleLog "string list"
  | ConsoleLogValue string json
  | ConsoleErrorValue string js_error

record world =
  COINMARKETCAP_API_KEY :: "string option"
  upstream :: "string \<Rightarrow> http_result"
  trace :: "event list"

definition emit :: "event \<Rightarrow> world \<Rightarrow> world" where
  "emit ev w = w\<lparr>trace := trace w @ [ev]\<rparr>"

definition axios_get ::
  "string \<Rightarrow> (string \<times> string) list \<Rightarrow> (string \<times> string) list \<Rightarrow> world \<Rightarrow> (js_error + json) \<times> world" where
  "axios_get url headers params w =
     ((case upstream w url of Rejected m \<Rightarrow> Inl (AxiosError m) | Response d \<Rightarrow> Inr d),
      emit (HttpGet url headers params) w)"

section \<open>The two provider clients and the fallback\<close>

record price_record =
  price :: string
  percent_change_24h :: string
  market_cap :: string
  last_updated :: jsval
  source :: string

definition CMC_URL :: string where
  "CMC_URL = ''https://pro-api.coinmarketcap.com/v1/cryptocurrency/quotes/latest''"

definition COINGECKO_URL :: string where
  "COINGECKO_URL = ''https://api.coingecko.com/api/v3/simple/price''"

text \<open>Lines 47 to 60 of \<open>getBitcoinPriceFromCMC\<close>: from \<open>response.data\<close> to the record.\<close>

definition cmc_record :: "runtime \<Rightarrow> json \<Rightarrow> js_error + price_record" where
  "cmc_record rt d =
     then_res (read_path (Some d) [''data'', ''BTC'']) (\<lambda>btcData.
     then_res (read_path btcData [''quote'', ''USD'', ''price'']) (\<lambda>price.
     then_res (read_path btcData [''quote'', ''USD'', ''percent_change_24h'']) (\<lambda>percentChange24h.
     then_res (read_path btcData [''quote'', ''USD'', ''market_cap'']) (\<lambda>marketCap.
     then_res (read_path btcData [''quote'', ''USD'', ''last_updated'']) (\<lambda>lastUpdated.
     then_res (call_toFixed2 rt ''price.toFixed'' price) (\<lambda>p.
     then_res (call_toFixed2 rt ''percentChange24h.toFixed'' percentChange24h) (\<lambda>c.
     then_res (call_toFixed2 rt ''marketCap.toFixed'' marketCap) (\<lambda>m.
       Inr \<lparr>price = p, percent_change_24h = c, market_cap = m,
            last_updated = lastUpdated, source = ''CoinMarketCap''\<rparr>))))))))"

text \<open>
  \<open>!apiKey\<close> holds for an unset variable and for the empty string. The \<open>try\<close> block of
  \<open>getBitcoinPriceFromCMC\<close>, then the function with its \<open>catch\<close>: the error's message is
  printed and the same error is thrown again.
\<close>

definition falsy :: "string option \<Rightarrow> bool" where
  "falsy k = (case k of None \<Rightarrow> True | Some s \<Rightarrow> s = [])"

definition cmc_try :: "runtime \<Rightarrow> world \<Rightarrow> (js_error + price_record) \<times> world" where
  "cmc_try rt w =
     (let apiKey = COINMARKETCAP_API_KEY w in
      if falsy apiKey then
        (Inl (Error ''COINMARKETCAP_API_KEY not found in environment variables''), w)
      else
        (case axios_get CMC_URL
                [(''X-CMC_PRO_API_KEY'', case apiKey of Some s \<Rightarrow> s | None \<Rightarrow> [])]
                [(''symbol'', ''BTC''), (''convert'', ''USD'')] w of
           (Inl e, w1) \<Rightarrow> (Inl e, w1)
         | (Inr d, w1) \<Rightarrow> (cmc_record rt d, w1)))"

definition getBitcoinPriceFromCMC :: "runtime \<Rightarrow> world \<Rightarrow> (js_error + price_record) \<times> world" where
  "getBitcoinPriceFromCMC rt w =
     (case cmc_try rt w of
        (Inl e, w1) \<Rightarrow> (Inl e, emit (ConsoleError [''CoinMarketCap API error:'', message rt e]) w1)
      | (Inr r, w1) \<Rightarrow> (Inr r, w1))"

text \<open>Lines 84 to 92 of \<open>getBitcoinPriceFromCoinGecko\<close>.\<close>

definition coingecko_record :: "runtime \<Rightarrow> json \<Rightarrow> js_error + price_record" where
  "coingecko_record rt d =
     then_res (read_path (Some d) [''bitcoin'']) (\<lambda>btcData.
     then_res (read_path btcData [''usd'']) (\<lambda>usd.
     then_res (call_toFixed2 rt ''btcData.usd.toFixed'' usd) (\<lambda>p.
     then_res (read_path btcData [''usd_24h_change'']) (\<lambda>change.
     then_res (call_toFixed2 rt ''btcData.usd_24h_change.toFixed'' change) (\<lambda>c.
     then_res (read_path btcData [''usd_market_cap'']) (\<lambda>cap.
     then_res (call_toFixed2 rt ''btcData.usd_market_cap.toFixed'' cap) (\<lambda>m.
     then_res (read_path btcData [''last_updated_at'']) (\<lambda>updatedAt.
     then_res (date_iso rt updatedAt) (\<lambda>iso.
       Inr \<lparr>price = p, percent_change_24h = c, market_cap = m,
            last_updated = Some (JStr iso), source = ''CoinGecko''\<rparr>)))))))))"

definition coingecko_try :: "runtime \<Rightarrow> world \<Rightarrow> (js_error + price_record) \<times> world" where
  "coingecko_try rt w =
     (case axios_get COINGECKO_URL []
             [(''ids'', ''bitcoin''), (''vs_currencies'', ''usd''), (''include_market_cap'', ''true''),
              (''include_24hr_change'', ''true''), (''include_last_updated_at'', ''true'')] w of
        (Inl e, w1) \<Rightarrow> (Inl e, w1)
      | (Inr d, w1) \<Rightarrow> (coingecko_record rt d, w1))"

definition getBitcoinPriceFromCoinGecko :: "runtime \<Rightarrow> world \<Rightarrow> (js_error + price_record) \<times> world" where
  "getBitcoinPriceFromCoinGecko rt w =
     (case coingecko_try rt w of
        (Inl e, w1) \<Rightarrow> (Inl e, emit (ConsoleError [''CoinGecko API error:'', message rt e]) w1)
      | (Inr r, w1) \<Rightarrow> (Inr r, w1))"

text \<open>\<open>getBitcoinPrice\<close>: the primary, and the secondary inside the \<open>catch\<close> of the primary.\<close>

definition getBitcoinPrice :: "runtime \<Rightarrow> world \<Rightarrow> (js_error + price_record) \<times> world" where
  "getBitcoinPrice rt w =
     (case getBitcoinPriceFromCMC rt w of
        (Inr r, w1) \<Rightarrow> (Inr r, w1)
      | (Inl e, w1) \<Rightarrow>
          (case getBitcoinPriceFromCoinGecko rt (emit (ConsoleLog [''Falling back to CoinGecko API...'']) w1) of
             (Inr r, w2) \<Rightarrow> (Inr r, w2)
           | (Inl fallbackError, w2) \<Rightarrow>
               (Inl (Error ''Failed to fetch Bitcoin price''),
                emit (ConsoleError [''All API attempts failed'']) w2)))"

text \<open>The number of outbound requests to a URL in a trace.\<close>

fun is_get :: "string \<Rightarrow> event \<Rightarrow> bool" where
  "is_get url (HttpGet u h p) = (u = url)"
| "is_get url ev = False"

definition calls_to :: "string \<Rightarrow> world \<Rightarrow> nat" where
  "calls_to url w = length (filter (is_get url) (trace w))"

section \<open>Conversions to text\<close>

text \<open>
  \<open>ToString\<close> of a parsed value, as a template literal applies it. An array is joined
  with commas, \<open>null\<close> elements printing as nothing. An object prints through
  \<open>Object.prototype.toString\<close> unless it has an own property \<open>toString\<close>: a parsed value is
  never a function, so the inherited \<open>valueOf\<close> is tried, returns the object itself, and
  the conversion throws a TypeError.
\<close>

fun js_toString :: "runtime \<Rightarrow> json \<Rightarrow> js_error + string"
  and join_elems :: "runtime \<Rightarrow> json list \<Rightarrow> js_error + string" where
  "js_toString rt JNull = Inr ''null''"
| "js_toString rt (JBool b) = Inr (if b then ''true'' else ''false'')"
| "js_toString rt (JNum x) = Inr (Number_toString rt x)"
| "js_toString rt (JStr s) = Inr s"
| "js_toString rt (JArr xs) = join_elems rt xs"
| "js_toString rt (JObj kvs) =
     (if map_of kvs ''toString'' = None then Inr ''[object Object]'' else Inl NoPrimitive)"
| "join_elems rt [] = Inr []"
| "join_elems rt (x # xs) =
     then_res (if x = JNull then Inr [] else js_toString rt x) (\<lambda>s.
       if xs = [] then Inr s
       else then_res (join_elems rt xs) (\<lambda>t. Inr (s @ '','' @ t)))"

definition template_value :: "runtime \<Rightarrow> jsval \<Rightarrow> js_error + string" where
  "template_value rt v = (case v of None \<Rightarrow> Inr ''undefined'' | Some j \<Rightarrow> js_toString rt j)"

text \<open>
  \<open>JSON.stringify\<close> without indentation. \<open>QuoteJSONString\<close> escapes the quote, the
  backslash and the code units below \<open>0x20\<close>. A number that is not finite prints as
  \<open>null\<close>.
\<close>

definition hex_digit :: "nat \<Rightarrow> char" where
  "hex_digit d = ''0123456789abcdef'' ! d"

definition quote_unit :: "char \<Rightarrow> string" where
  "quote_unit c =
     (if c = CHR 0x22 then [CHR 0x5C, CHR 0x22]
      else if c = CHR 0x5C then [CHR 0x5C, CHR 0x5C]
      else if c = CHR 0x08 then [CHR 0x5C, CHR ''b'']
      else if c = CHR 0x09 then [CHR 0x5C, CHR ''t'']
      else if c = CHR 0x0A then [CHR 0x5C, CHR ''n'']
      else if c = CHR 0x0C then [CHR 0x5C, CHR ''f'']
      else if c = CHR 0x0D then [CHR 0x5C, CHR ''r'']
      else if (of_char c :: nat) < 32 then
        [CHR 0x5C, CHR ''u'', CHR ''0'', CHR ''0'',
         hex_digit (of_char c div 16), hex_digit (of_char c mod 16)]
      else [c])"

definition QuoteJSONString :: "string \<Rightarrow> string" where
  "QuoteJSONString s = [CHR 0x22] @ concat (map quote_unit s) @ [CHR 0x22]"

fun commas :: "string list \<Rightarrow> string" where
  "commas [] = []"
| "commas [s] = s"
| "commas (s # t # ts) = s @ '','' @ commas (t # ts)"

fun JSON_stringify :: "runtime \<Rightarrow> json \<Rightarrow> string" where
  "JSON_stringify rt JNull = ''null''"
| "JSON_stringify rt (JBool b) = (if b then ''true'' else ''false'')"
| "JSON_stringify rt (JNum (Finite x)) = Number_toString rt (Finite x)"
| "JSON_stringify rt (JNum x) = ''null''"
| "JSON_stringify rt (JStr s) = QuoteJSONString s"
| "JSON_stringify rt (JArr xs) = ''['' @ commas (map (JSON_stringify rt) xs) @ '']''"
| "JSON_stringify rt (JObj kvs) =
     ''{'' @ commas (map (\<lambda>kv. QuoteJSONString (fst kv) @ '':'' @ JSON_stringify rt (snd kv)) kvs) @ ''}''"

section \<open>The tool registry\<close>

definition string_property :: "string \<Rightarrow> json" where
  "string_property d = JObj [(''type'', JStr ''string''), (''description'', JStr d)]"

definition mcp :: json where
  "mcp = JObj
    [(''schemaVersion'', JStr ''2.0''),
     (''tools'', JObj
       [(''get-bitcoin-price'', JObj
          [(''description'', JStr ''Get the current price of Bitcoin (BTC) in USD''),
           (''input'', JObj
              [(''type'', JStr ''object''), (''properties'', JObj []), (''required'', JArr [])]),
           (''output'', JObj
              [(''type'', JStr ''object''),
               (''properties'', JObj
                  [(''price'', string_property ''Current price of Bitcoin in USD''),
                   (''percent_change_24h'', string_property ''24-hour percent change in Bitcoin price''),
                   (''market_cap'', string_property ''Current market cap of Bitcoin in USD''),
                   (''last_updated'', string_property ''Timestamp of when the price was last updated''),
                   (''source'', string_property ''Data source (CoinMarketCap or CoinGecko)'')]),
               (''required'', JArr
                  [JStr ''price'', JStr ''percent_change_24h'', JStr ''market_cap'',
                   JStr ''last_updated'', JStr ''source''])])])])]"

section \<open>The HTTP server\<close>

text \<open>
  \<open>http.ServerResponse\<close>: the headers set so far, the status once \<open>writeHead\<close> has stored
  the header, the chunks written, and whether \<open>end\<close> was called. A second \<open>writeHead\<close>
  throws \<open>ERR_HTTP_HEADERS_SENT\<close>.
\<close>

record response =
  headers :: "(string \<times> string) list"
  status :: "nat option"
  chunks :: "string list"
  ended :: bool

definition new_response :: response where
  "new_response = \<lparr>headers = [], status = None, chunks = [], ended = False\<rparr>"

definition setHeader :: "string \<Rightarrow> string \<Rightarrow> response \<Rightarrow> response" where
  "setHeader n v rs = rs\<lparr>headers := headers rs @ [(n, v)]\<rparr>"

definition writeHead :: "nat \<Rightarrow> (string \<times> string) list \<Rightarrow> response \<Rightarrow> js_error + response" where
  "writeHead code hs rs =
     (if status rs \<noteq> None then Inl HeadersSent
      else Inr (rs\<lparr>status := Some code, headers := headers rs @ hs\<rparr>))"

definition res_write :: "string \<Rightarrow> response \<Rightarrow> response" where
  "res_write s rs = rs\<lparr>chunks := chunks rs @ [s]\<rparr>"

definition res_end :: "string option \<Rightarrow> response \<Rightarrow> response" where
  "res_end data rs =
     rs\<lparr>chunks := chunks rs @ (case data of None \<Rightarrow> [] | Some s \<Rightarrow> [s]), ended := True\<rparr>"

text \<open>
  What one run of the request listener leaves behind: the response, the delay of the
  interval timer it registered (if any), and the exception that escaped it (if any).
\<close>

record handled =
  res :: response
  heartbeat :: "nat option"
  unhandled :: "js_error option"

definition finished :: "response \<Rightarrow> handled" where
  "finished rs = \<lparr>res = rs, heartbeat = None, unhandled = None\<rparr>"

definition escaped :: "js_error \<Rightarrow> response \<Rightarrow> handled" where
  "escaped e rs = \<lparr>res = rs, heartbeat = None, unhandled = Some e\<rparr>"

definition json_type :: "(string \<times> string) list" where
  "json_type = [(''Content-Type'', ''application/json'')]"

definition error_body :: "string \<Rightarrow> json" where
  "error_body m = JObj [(''error'', JObj [(''message'', JStr m)])]"

text \<open>
  The object \<open>{ result: bitcoinData }\<close> as \<open>JSON.stringify\<close> sees it: a property whose
  value is \<open>undefined\<close> is left out.
\<close>

definition record_json :: "price_record \<Rightarrow> json" where
  "record_json r = JObj
     ([(''price'', JStr (price r)),
       (''percent_change_24h'', JStr (percent_change_24h r)),
       (''market_cap'', JStr (market_cap r))]
      @ (case last_updated r of None \<Rightarrow> [] | Some v \<Rightarrow> [(''last_updated'', v)])
      @ [(''source'', JStr (source r))])"

text \<open>The \<open>catch\<close> block of the \<open>/execute\<close> listener (lines 293 to 304).\<close>

definition execute_catch :: "runtime \<Rightarrow> js_error \<Rightarrow> response \<Rightarrow> world \<Rightarrow> handled \<times> world" where
  "execute_catch rt e rs w =
     (let w1 = emit (ConsoleErrorValue ''Error processing request:'' e) w in
      case writeHead 500 json_type rs of
        Inl e2 \<Rightarrow> (escaped e2 rs, w1)
      | Inr rs1 \<Rightarrow>
          (finished (res_end (Some (JSON_stringify rt (error_body (message rt e)))) rs1), w1))"

text \<open>The \<open>end\<close> listener of \<open>/execute\<close> (lines 264 to 305), on the whole body.\<close>

definition execute_end :: "runtime \<Rightarrow> string \<Rightarrow> response \<Rightarrow> world \<Rightarrow> handled \<times> world" where
  "execute_end rt body rs w =
     (case JSON_parse rt body of
        Inl e \<Rightarrow> execute_catch rt e rs w
      | Inr request \<Rightarrow>
          (let w1 = emit (ConsoleLogValue ''Received request:'' request) w in
           case getProp (Some request) ''name'' of
             Inl e \<Rightarrow> execute_catch rt e rs w1
           | Inr name \<Rightarrow>
               if name = Some (JStr ''get-bitcoin-price'') then
                 (case getBitcoinPrice rt w1 of
                    (Inl e, w2) \<Rightarrow> execute_catch rt e rs w2
                  | (Inr bitcoinData, w2) \<Rightarrow>
                      (case writeHead 200 json_type rs of
                         Inl e \<Rightarrow> execute_catch rt e rs w2
                       | Inr rs1 \<Rightarrow>
                           (finished (res_end (Some (JSON_stringify rt
                              (JObj [(''result'', record_json bitcoinData)]))) rs1), w2)))
               else
                 (case writeHead 400 json_type rs of
                    Inl e \<Rightarrow> execute_catch rt e rs w1
                  | Inr rs1 \<Rightarrow>
                      (case template_value rt name of
                         Inl e \<Rightarrow> execute_catch rt e rs1 w1
                       | Inr s \<Rightarrow>
                           (finished (res_end (Some (JSON_stringify rt
                              (error_body (''Unknown tool: '' @ s)))) rs1), w1)))))"

text \<open>The first chunk of the event stream and the heartbeat comment.\<close>

definition sse_data :: "string \<Rightarrow> string" where
  "sse_data payload = ''data: '' @ payload @ [CHR 0x0A, CHR 0x0A]"

definition heartbeat_chunk :: string where
  "heartbeat_chunk = '':heartbeat'' @ [CHR 0x0A, CHR 0x0A]"

record request =
  http_method :: string
  url :: string
  body :: string

text \<open>
  The request listener (lines 201 to 317). \<open>http_method\<close> is \<open>req.method\<close>.
\<close>

definition handle :: "runtime \<Rightarrow> request \<Rightarrow> world \<Rightarrow> handled \<times> world" where
  "handle rt rq w =
     (let rs = setHeader ''Access-Control-Allow-Headers'' ''Content-Type''
                (setHeader ''Access-Control-Allow-Methods'' ''OPTIONS, POST, GET''
                  (setHeader ''Access-Control-Allow-Origin'' ''*'' new_response))
      in
      if http_method rq = ''OPTIONS'' then
        (case writeHead 204 [] rs of
           Inl e \<Rightarrow> (escaped e rs, w)
         | Inr rs1 \<Rightarrow> (finished (res_end None rs1), w))
      else
        (let w1 = emit (ConsoleLog [''Received '' @ http_method rq @ '' request for '' @ url rq]) w in
         if http_method rq = ''GET'' \<and> url rq = ''/events'' then
           (case writeHead 200 [(''Content-Type'', ''text/event-stream''),
                                (''Cache-Control'', ''no-cache''),
                                (''Connection'', ''keep-alive'')] rs of
              Inl e \<Rightarrow> (escaped e rs, w1)
            | Inr rs1 \<Rightarrow>
                (\<lparr>res = res_write (sse_data (JSON_stringify rt mcp)) rs1,
                  heartbeat = Some 30000, unhandled = None\<rparr>, w1))
         else if http_method rq = ''GET'' \<and> url rq = ''/'' then
           (case writeHead 200 json_type rs of
              Inl e \<Rightarrow> (escaped e rs, w1)
            | Inr rs1 \<Rightarrow> (finished (res_end (Some (JSON_stringify rt mcp)) rs1), w1))
         else if http_method rq = ''GET'' \<and> url rq = ''/health'' then
           (case writeHead 200 json_type rs of
              Inl e \<Rightarrow> (escaped e rs, w1)
            | Inr rs1 \<Rightarrow>
                (finished (res_end (Some (JSON_stringify rt (JObj [(''status'', JStr ''healthy'')]))) rs1), w1))
         else if http_method rq = ''POST'' \<and> url rq = ''/execute'' then
           execute_end rt (body rq) rs w1
         else
           (case writeHead 404 json_type rs of
              Inl e \<Rightarrow> (escaped e rs, w1)
            | Inr rs1 \<Rightarrow>
                (finished (res_end (Some (JSON_stringify rt (error_body ''Not found''))) rs1), w1))))"

section \<open>The event stream over time\<close>

text \<open>
  An open \<open>/events\<close> connection on a clock in milliseconds: its response, the time for
  which the interval timer is scheduled next (\<open>None\<close> when there is no timer, or after
  \<open>clearInterval\<close>), the timer's delay, and how often it has fired. \<open>setInterval\<close>
  treats a delay below 1 as 1.
\<close>

record stream =
  sres :: response
  due :: "nat option"
  delay :: nat
  fired :: nat


text \<open>
  The timer's callback, run at time \<open>t\<close>: it writes the heartbeat, and the timer is
  scheduled again one delay after \<open>t\<close>.
\<close>

definition fire :: "nat \<Rightarrow> stream \<Rightarrow> stream" where
  "fire t s = s\<lparr>sres := res_write heartbeat_chunk (sres s),
                due := Some (t + max 1 (delay s)),
                fired := Suc (fired s)\<rparr>"




section \<open>Notions the properties are stated with\<close>

text \<open>A text of the form \<open>d...d.dd\<close> with an optional minus sign in front.\<close>

definition is_digit :: "char \<Rightarrow> bool" where
  "is_digit c = (c \<in> set ''0123456789'')"

definition two_fraction_digits :: "string \<Rightarrow> bool" where
  "two_fraction_digits s =
     (let u = (case s of [] \<Rightarrow> [] | c # t \<Rightarrow> if c = CHR ''-'' then t else s);
          n = length u - 3
      in take n u \<noteq> [] \<and> list_all is_digit (take n u) \<and>
         (case drop n u of [p, a, b] \<Rightarrow> p = CHR ''.'' \<and> is_digit a \<and> is_digit b | _ \<Rightarrow> False))"

text \<open>The numbers \<open>toFixed\<close> prints in fixed notation.\<close>

fun fixed_range :: "jsnum \<Rightarrow> bool" where
  "fixed_range (Finite x) = (\<bar>x\<bar> < 10 ^ 21)"
| "fixed_range v = False"

text \<open>The numbers behind the three formatted fields, in a payload of either provider.\<close>

definition cmc_numbers :: "json \<Rightarrow> (js_error + jsval) list" where
  "cmc_numbers d =
     [read_path (Some d) [''data'', ''BTC'', ''quote'', ''USD'', ''price''],
      read_path (Some d) [''data'', ''BTC'', ''quote'', ''USD'', ''percent_change_24h''],
      read_path (Some d) [''data'', ''BTC'', ''quote'', ''USD'', ''market_cap'']]"

definition coingecko_numbers :: "json \<Rightarrow> (js_error + jsval) list" where
  "coingecko_numbers d =
     [read_path (Some d) [''bitcoin'', ''usd''],
      read_path (Some d) [''bitcoin'', ''usd_24h_change''],
      read_path (Some d) [''bitcoin'', ''usd_market_cap'']]"

text \<open>Status classes of a response.\<close>

definition client_error :: "response \<Rightarrow> bool" where
  "client_error rs = (case status rs of None \<Rightarrow> False | Some c \<Rightarrow> 400 \<le> c \<and> c < 500)"

definition non_success :: "response \<Rightarrow> bool" where
  "non_success rs = (case status rs of None \<Rightarrow> False | Some c \<Rightarrow> 400 \<le> c \<and> c < 600)"

text \<open>
  The listener answered with a status and one JSON document, ended the response, and no
  exception escaped it.
\<close>

definition replied :: "runtime \<Rightarrow> nat \<Rightarrow> json \<Rightarrow> handled \<Rightarrow> bool" where
  "replied rt code v h =
     (status (res h) = Some code \<and> chunks (res h) = [JSON_stringify rt v] \<and>
      ended (res h) \<and> unhandled h = None)"

text \<open>
  The world in which the secondary client runs when the primary one has failed.
\<close>

definition fallback_world :: "runtime \<Rightarrow> world \<Rightarrow> world" where
  "fallback_world rt w =
     emit (ConsoleLog [''Falling back to CoinGecko API...'']) (snd (getBitcoinPriceFromCMC rt w))"

text \<open>The two outbound requests, the primary one with its credential.\<close>

definition cmc_request :: "string \<Rightarrow> event" where
  "cmc_request k =
     HttpGet CMC_URL [(''X-CMC_PRO_API_KEY'', k)] [(''symbol'', ''BTC''), (''convert'', ''USD'')]"

definition coingecko_request :: event where
  "coingecko_request =
     HttpGet COINGECKO_URL []
       [(''ids'', ''bitcoin''), (''vs_currencies'', ''usd''), (''include_market_cap'', ''true''),
        (''include_24hr_change'', ''true''), (''include_last_updated_at'', ''true'')]"

text \<open>
  What a client reads from one chunk of an event stream that is a single \<open>data\<close> field
  on one line, closed by an empty line.
\<close>

definition sse_payload :: "string \<Rightarrow> string option" where
  "sse_payload chunk =
     (let line = takeWhile (\<lambda>c. c \<noteq> CHR 0x0A \<and> c \<noteq> CHR 0x0D) chunk;
          rest = dropWhile (\<lambda>c. c \<noteq> CHR 0x0A \<and> c \<noteq> CHR 0x0D) chunk
      in if take 6 line = ''data: '' \<and> rest = [CHR 0x0A, CHR 0x0A] then Some (drop 6 line) else None)"

text \<open>The outbound requests in a trace.\<close>

fun is_request :: "event \<Rightarrow> bool" where
  "is_request (HttpGet u h p) = True"
| "is_request ev = False"

definition requests :: "world \<Rightarrow> event list" where
  "requests w = filter is_request (trace w)"

text \<open>
  The response as the listener finds it after the three \<open>setHeader\<close> calls, the world
  after the listener of \<open>/execute\<close> has printed the parsed request, and a \<open>GET\<close> request.
\<close>

definition fresh :: response where
  "fresh = setHeader ''Access-Control-Allow-Headers'' ''Content-Type''
             (setHeader ''Access-Control-Allow-Methods'' ''OPTIONS, POST, GET''
               (setHeader ''Access-Control-Allow-Origin'' ''*'' new_response))"

definition received :: "json \<Rightarrow> world \<Rightarrow> world" where
  "received request w = emit (ConsoleLogValue ''Received request:'' request) w"

definition get_request :: "string \<Rightarrow> request" where
  "get_request u = \<lparr>http_method = ''GET'', url = u, body = []\<rparr>"

section \<open>Example inputs\<close>

text \<open>
  A runtime for the examples. It gives what Node gives at the arguments the examples
  use: \<open>Number::toString\<close> of \<open>10^21\<close>, the date of the epoch second \<open>1700000000\<close>,
  \<open>JSON.parse\<close> of four request bodies, and V8's wording of its messages.
\<close>

definition example_parse :: "string \<Rightarrow> js_error + json" where
  \<open>example_parse s =
     (if s = ''{"name":"get-bitcoin-price","arguments":{}}'' then
        Inr (JObj [(''name'', JStr ''get-bitcoin-price''), (''arguments'', JObj [])])
      else if s = ''{"name":"get-bitcoin-price","arguments":{"currency":"EUR"},"id":7}'' then
        Inr (JObj [(''name'', JStr ''get-bitcoin-price''),
                   (''arguments'', JObj [(''currency'', JStr ''EUR'')]),
                   (''id'', JNum (Finite 7))])
      else if s = ''{"name":"not-a-real-tool","arguments":{}}'' then
        Inr (JObj [(''name'', JStr ''not-a-real-tool''), (''arguments'', JObj [])])
      else if s = ''{"name":{"toString":1}}'' then
        Inr (JObj [(''name'', JObj [(''toString'', JNum (Finite 1))])])
      else if s = ''null'' then Inr JNull
      else Inl (SyntaxError ''Unexpected end of JSON input''))\<close>

fun example_message :: "js_error \<Rightarrow> string" where
  "example_message (ReadOfNullish None k) =
     ''Cannot read properties of undefined (reading '' @ [CHR 0x27] @ k @ [CHR 0x27] @ '')''"
| "example_message (ReadOfNullish (Some v) k) =
     ''Cannot read properties of null (reading '' @ [CHR 0x27] @ k @ [CHR 0x27] @ '')''"
| "example_message (NotAFunction callee) = callee @ '' is not a function''"
| "example_message NoPrimitive = ''Cannot convert object to primitive value''"
| "example_message InvalidTime = ''Invalid time value''"
| "example_message HeadersSent = ''Cannot write headers after they are sent to the client''"
| "example_message (Error m) = m"
| "example_message (SyntaxError m) = m"
| "example_message (AxiosError m) = m"

definition example_runtime :: runtime where
  "example_runtime =
     \<lparr>number_toString = (\<lambda>x. if x = 10 ^ 21 then ''1e+21'' else []),
      date_iso = (\<lambda>v. if v = Some (JNum (Finite 1700000000))
                       then Inr ''2023-11-14T22:13:20.000Z'' else Inl InvalidTime),
      JSON_parse = example_parse,
      engine_message = example_message\<rparr>"

text \<open>
  Payloads of the two providers. \<open>5909888743191347 / 2^37\<close> is the double that the
  literal \<open>43000.1\<close> denotes.
\<close>

definition cmc_payload :: "jsnum \<Rightarrow> json" where
  "cmc_payload cap =
     JObj [(''data'', JObj [(''BTC'', JObj [(''quote'', JObj [(''USD'', JObj
       [(''price'', JNum (Finite (5909888743191347 / 137438953472))),
        (''percent_change_24h'', JNum (Finite (- 5 / 4))),
        (''market_cap'', JNum cap),
        (''last_updated'', JStr ''2023-11-14T22:13:00.000Z'')])])])])]"

definition coingecko_payload :: "jsnum \<Rightarrow> json" where
  "coingecko_payload cap =
     JObj [(''bitcoin'', JObj
       [(''usd'', JNum (Finite (5909888743191347 / 137438953472))),
        (''usd_market_cap'', JNum cap),
        (''usd_24h_change'', JNum (Finite (- 5 / 4))),
        (''last_updated_at'', JNum (Finite 1700000000))])]"

text \<open>
  Worlds: both providers answer; no credential and only the secondary answers; a
  credential and no provider reachable; the secondary reports a market capitalisation of
  \<open>10^21\<close>.
\<close>

definition world_up :: world where
  "world_up =
     \<lparr>COINMARKETCAP_API_KEY = Some ''key'',
      upstream = (\<lambda>u. if u = CMC_URL then Response (cmc_payload (Finite 850000000000))
                       else Response (coingecko_payload (Finite 850000000000))),
      trace = []\<rparr>"

definition world_no_key :: world where
  "world_no_key =
     \<lparr>COINMARKETCAP_API_KEY = None,
      upstream = (\<lambda>u. if u = COINGECKO_URL then Response (coingecko_payload (Finite 850000000000))
                       else Rejected ''Request failed with status code 401''),
      trace = []\<rparr>"

definition world_down :: world where
  "world_down =
     \<lparr>COINMARKETCAP_API_KEY = Some ''key'',
      upstream = (\<lambda>u. Rejected ''Network Error''),
      trace = []\<rparr>"

definition world_huge :: world where
  "world_huge =
     \<lparr>COINMARKETCAP_API_KEY = None,
      upstream = (\<lambda>u. Response (coingecko_payload (Finite (10 ^ 21)))),
      trace = []\<rparr>"

definition post_execute :: "string \<Rightarrow> request" where
  "post_execute b = \<lparr>http_method = ''POST'', url = ''/execute'', body = b\<rparr>"

text \<open>
  What the two clients make of the payloads above, the secondary's record with the
  market capitalisation left open, and a world whose providers answer \<open>{}\<close>.
\<close>

definition cmc_answer :: price_record where
  "cmc_answer =
     \<lparr>price = ''43000.10'', percent_change_24h = ''-1.25'', market_cap = ''850000000000.00'',
      last_updated = Some (JStr ''2023-11-14T22:13:00.000Z''), source = ''CoinMarketCap''\<rparr>"

definition coingecko_answer :: "string \<Rightarrow> price_record" where
  "coingecko_answer cap =
     \<lparr>price = ''43000.10'', percent_change_24h = ''-1.25'', market_cap = cap,
      last_updated = Some (JStr ''2023-11-14T22:13:20.000Z''), source = ''CoinGecko''\<rparr>"

definition world_malformed :: world where
  "world_malformed =
     \<lparr>COINMARKETCAP_API_KEY = Some ''key'',
      upstream = (\<lambda>u. Response (JObj [])),
      trace = []\<rparr>"

section \<open>Facts about the provider clients and the fallback\<close>

lemma urls_differ: "CMC_URL \<noteq> COINGECKO_URL"
  by (simp add: CMC_URL_def COINGECKO_URL_def)

lemma emit_fields [simp]:
  "COINMARKETCAP_API_KEY (emit ev w) = COINMARKETCAP_API_KEY w"
  "upstream (emit ev w) = upstream w"
  "trace (emit ev w) = trace w @ [ev]"
  by (simp_all add: emit_def)

lemma calls_to_emit:
  "calls_to u (emit ev w) = calls_to u w + (if is_get u ev then 1 else 0)"
  by (simp add: calls_to_def)

lemma requests_emit:
  "requests (emit ev w) = requests w @ (if is_request ev then [ev] else [])"
  by (simp add: requests_def)

text \<open>What a provider client returns depends on the environment and the upstream only.\<close>

lemma fst_cmc_try:
  "fst (cmc_try rt w) =
     (if falsy (COINMARKETCAP_API_KEY w)
      then Inl (Error ''COINMARKETCAP_API_KEY not found in environment variables'')
      else case upstream w CMC_URL of Rejected m \<Rightarrow> Inl (AxiosError m) | Response d \<Rightarrow> cmc_record rt d)"
  by (simp add: cmc_try_def axios_get_def split: http_result.splits sum.splits)

lemma snd_cmc_try:
  "snd (cmc_try rt w) =
     (if falsy (COINMARKETCAP_API_KEY w) then w
      else emit (HttpGet CMC_URL
                  [(''X-CMC_PRO_API_KEY'', case COINMARKETCAP_API_KEY w of Some s \<Rightarrow> s | None \<Rightarrow> [])]
                  [(''symbol'', ''BTC''), (''convert'', ''USD'')]) w)"
  by (simp add: cmc_try_def axios_get_def split: http_result.splits sum.splits)

lemma fst_cmc: "fst (getBitcoinPriceFromCMC rt w) = fst (cmc_try rt w)"
  by (simp add: getBitcoinPriceFromCMC_def split: prod.splits sum.splits)

lemma snd_cmc:
  "snd (getBitcoinPriceFromCMC rt w) =
     (case fst (cmc_try rt w) of
        Inl e \<Rightarrow> emit (ConsoleError [''CoinMarketCap API error:'', message rt e]) (snd (cmc_try rt w))
      | Inr r \<Rightarrow> snd (cmc_try rt w))"
  by (simp add: getBitcoinPriceFromCMC_def split: prod.splits sum.splits)

lemma fst_coingecko_try:
  "fst (coingecko_try rt w) =
     (case upstream w COINGECKO_URL of Rejected m \<Rightarrow> Inl (AxiosError m) | Response d \<Rightarrow> coingecko_record rt d)"
  by (simp add: coingecko_try_def axios_get_def split: http_result.splits sum.splits)

lemma snd_coingecko_try:
  "snd (coingecko_try rt w) =
     emit (HttpGet COINGECKO_URL []
            [(''ids'', ''bitcoin''), (''vs_currencies'', ''usd''), (''include_market_cap'', ''true''),
             (''include_24hr_change'', ''true''), (''include_last_updated_at'', ''true'')]) w"
  by (simp add: coingecko_try_def axios_get_def split: http_result.splits sum.splits)

lemma fst_coingecko: "fst (getBitcoinPriceFromCoinGecko rt w) = fst (coingecko_try rt w)"
  by (simp add: getBitcoinPriceFromCoinGecko_def split: prod.splits sum.splits)

lemma snd_coingecko:
  "snd (getBitcoinPriceFromCoinGecko rt w) =
     (case fst (coingecko_try rt w) of
        Inl e \<Rightarrow> emit (ConsoleError [''CoinGecko API error:'', message rt e]) (snd (coingecko_try rt w))
      | Inr r \<Rightarrow> snd (coingecko_try rt w))"
  by (simp add: getBitcoinPriceFromCoinGecko_def split: prod.splits sum.splits)

lemma cmc_env [simp]:
  "COINMARKETCAP_API_KEY (snd (getBitcoinPriceFromCMC rt w)) = COINMARKETCAP_API_KEY w"
  "upstream (snd (getBitcoinPriceFromCMC rt w)) = upstream w"
  by (simp_all add: snd_cmc snd_cmc_try split: sum.splits)

lemma coingecko_env [simp]:
  "COINMARKETCAP_API_KEY (snd (getBitcoinPriceFromCoinGecko rt w)) = COINMARKETCAP_API_KEY w"
  "upstream (snd (getBitcoinPriceFromCoinGecko rt w)) = upstream w"
  by (simp_all add: snd_coingecko snd_coingecko_try split: sum.splits)

lemma cmc_indep:
  "COINMARKETCAP_API_KEY w = COINMARKETCAP_API_KEY w' \<Longrightarrow> upstream w = upstream w' \<Longrightarrow>
     fst (getBitcoinPriceFromCMC rt w) = fst (getBitcoinPriceFromCMC rt w')"
  by (simp add: fst_cmc fst_cmc_try)

lemma coingecko_indep:
  "upstream w = upstream w' \<Longrightarrow>
     fst (getBitcoinPriceFromCoinGecko rt w) = fst (getBitcoinPriceFromCoinGecko rt w')"
  by (simp add: fst_coingecko fst_coingecko_try)

lemma cmc_calls:
  "calls_to u (snd (getBitcoinPriceFromCMC rt w)) =
     calls_to u w + (if \<not> falsy (COINMARKETCAP_API_KEY w) \<and> u = CMC_URL then 1 else 0)"
  by (auto simp: snd_cmc snd_cmc_try calls_to_emit split: sum.splits)

lemma coingecko_calls:
  "calls_to u (snd (getBitcoinPriceFromCoinGecko rt w)) =
     calls_to u w + (if u = COINGECKO_URL then 1 else 0)"
  by (auto simp: snd_coingecko snd_coingecko_try calls_to_emit split: sum.splits)

lemma cmc_requests:
  "requests (snd (getBitcoinPriceFromCMC rt w)) =
     requests w @
     (if falsy (COINMARKETCAP_API_KEY w) then []
      else [HttpGet CMC_URL
              [(''X-CMC_PRO_API_KEY'', case COINMARKETCAP_API_KEY w of Some s \<Rightarrow> s | None \<Rightarrow> [])]
              [(''symbol'', ''BTC''), (''convert'', ''USD'')]])"
  by (auto simp: snd_cmc snd_cmc_try requests_emit split: sum.splits)

lemma coingecko_requests:
  "requests (snd (getBitcoinPriceFromCoinGecko rt w)) =
     requests w @
     [HttpGet COINGECKO_URL []
        [(''ids'', ''bitcoin''), (''vs_currencies'', ''usd''), (''include_market_cap'', ''true''),
         (''include_24hr_change'', ''true''), (''include_last_updated_at'', ''true'')]]"
  by (auto simp: snd_coingecko snd_coingecko_try requests_emit split: sum.splits)

text \<open>A client that fails prints the message and throws the same error.\<close>

lemma cmc_failure:
  assumes "fst (cmc_try rt w) = Inl e"
  shows "getBitcoinPriceFromCMC rt w =
     (Inl e, emit (ConsoleError [''CoinMarketCap API error:'', message rt e]) (snd (cmc_try rt w)))"
  using assms
  by (cases "cmc_try rt w") (simp add: getBitcoinPriceFromCMC_def)

lemma coingecko_failure:
  assumes "fst (coingecko_try rt w) = Inl e"
  shows "getBitcoinPriceFromCoinGecko rt w =
     (Inl e, emit (ConsoleError [''CoinGecko API error:'', message rt e]) (snd (coingecko_try rt w)))"
  using assms
  by (cases "coingecko_try rt w") (simp add: getBitcoinPriceFromCoinGecko_def)

text \<open>The fallback, by the outcome of the two clients.\<close>

lemma getBitcoinPrice_cases:
  "getBitcoinPrice rt w =
     (case fst (getBitcoinPriceFromCMC rt w) of
        Inr r \<Rightarrow> (Inr r, snd (getBitcoinPriceFromCMC rt w))
      | Inl e \<Rightarrow>
          (case fst (getBitcoinPriceFromCoinGecko rt (fallback_world rt w)) of
             Inr r \<Rightarrow> (Inr r, snd (getBitcoinPriceFromCoinGecko rt (fallback_world rt w)))
           | Inl e' \<Rightarrow>
               (Inl (Error ''Failed to fetch Bitcoin price''),
                emit (ConsoleError [''All API attempts failed''])
                  (snd (getBitcoinPriceFromCoinGecko rt (fallback_world rt w))))))"
proof (cases "getBitcoinPriceFromCMC rt w")
  case first: (Pair a w1)
  show ?thesis
  proof (cases a)
    case (Inr r)
    with first show ?thesis by (simp add: getBitcoinPrice_def)
  next
    case (Inl e)
    have fw: "fallback_world rt w = emit (ConsoleLog [''Falling back to CoinGecko API...'']) w1"
      using first by (simp add: fallback_world_def)
    show ?thesis
    proof (cases "getBitcoinPriceFromCoinGecko rt (fallback_world rt w)")
      case second: (Pair b w2)
      then show ?thesis
        using first Inl fw by (cases b) (simp_all add: getBitcoinPrice_def)
    qed
  qed
qed

lemma fallback_world_fields [simp]:
  "COINMARKETCAP_API_KEY (fallback_world rt w) = COINMARKETCAP_API_KEY w"
  "upstream (fallback_world rt w) = upstream w"
  by (simp_all add: fallback_world_def)

lemma fst_getBitcoinPrice:
  "fst (getBitcoinPrice rt w) =
     (case fst (getBitcoinPriceFromCMC rt w) of
        Inr r \<Rightarrow> Inr r
      | Inl e \<Rightarrow>
          (case fst (getBitcoinPriceFromCoinGecko rt w) of
             Inr r \<Rightarrow> Inr r
           | Inl e' \<Rightarrow> Inl (Error ''Failed to fetch Bitcoin price'')))"
proof -
  have "fst (getBitcoinPriceFromCoinGecko rt (fallback_world rt w)) =
        fst (getBitcoinPriceFromCoinGecko rt w)"
    by (rule coingecko_indep) simp
  then show ?thesis
    by (simp add: getBitcoinPrice_cases split: sum.splits)
qed

lemma getBitcoinPrice_indep:
  "COINMARKETCAP_API_KEY w = COINMARKETCAP_API_KEY w' \<Longrightarrow> upstream w = upstream w' \<Longrightarrow>
     fst (getBitcoinPrice rt w) = fst (getBitcoinPrice rt w')"
proof -
  assume env: "COINMARKETCAP_API_KEY w = COINMARKETCAP_API_KEY w'" "upstream w = upstream w'"
  have a: "fst (getBitcoinPriceFromCMC rt w) = fst (getBitcoinPriceFromCMC rt w')"
    using env by (rule cmc_indep)
  have b: "fst (getBitcoinPriceFromCoinGecko rt w) = fst (getBitcoinPriceFromCoinGecko rt w')"
    using env(2) by (rule coingecko_indep)
  show ?thesis
    unfolding fst_getBitcoinPrice a b ..
qed

lemma getBitcoinPrice_env [simp]:
  "COINMARKETCAP_API_KEY (snd (getBitcoinPrice rt w)) = COINMARKETCAP_API_KEY w"
  "upstream (snd (getBitcoinPrice rt w)) = upstream w"
  by (simp_all add: getBitcoinPrice_cases split: sum.splits)

lemma snd_getBitcoinPrice:
  "snd (getBitcoinPrice rt w) =
     (case fst (getBitcoinPriceFromCMC rt w) of
        Inr r \<Rightarrow> snd (getBitcoinPriceFromCMC rt w)
      | Inl e \<Rightarrow>
          (case fst (getBitcoinPriceFromCoinGecko rt (fallback_world rt w)) of
             Inr r \<Rightarrow> snd (getBitcoinPriceFromCoinGecko rt (fallback_world rt w))
           | Inl e' \<Rightarrow>
               emit (ConsoleError [''All API attempts failed''])
                 (snd (getBitcoinPriceFromCoinGecko rt (fallback_world rt w)))))"
  by (simp add: getBitcoinPrice_cases split: sum.splits)

lemma fallback_world_calls: "calls_to u (fallback_world rt w) = calls_to u (snd (getBitcoinPriceFromCMC rt w))"
  by (simp add: fallback_world_def calls_to_emit)

lemma fallback_world_requests: "requests (fallback_world rt w) = requests (snd (getBitcoinPriceFromCMC rt w))"
  by (simp add: fallback_world_def requests_emit)

lemma getBitcoinPrice_calls:
  "calls_to u (snd (getBitcoinPrice rt w)) =
     calls_to u w
     + (if \<not> falsy (COINMARKETCAP_API_KEY w) \<and> u = CMC_URL then 1 else 0)
     + (case fst (getBitcoinPriceFromCMC rt w) of
          Inr r \<Rightarrow> 0 | Inl e \<Rightarrow> if u = COINGECKO_URL then 1 else 0)"
proof (cases "fst (getBitcoinPriceFromCMC rt w)")
  case (Inr r)
  then show ?thesis
    by (simp add: snd_getBitcoinPrice cmc_calls)
next
  case (Inl e)
  show ?thesis
  proof (cases "fst (getBitcoinPriceFromCoinGecko rt (fallback_world rt w))")
    case (Inr r)
    with Inl show ?thesis
      by (simp add: snd_getBitcoinPrice coingecko_calls fallback_world_calls cmc_calls)
  next
    case second: (Inl e')
    with Inl show ?thesis
      by (simp add: snd_getBitcoinPrice calls_to_emit coingecko_calls fallback_world_calls cmc_calls)
  qed
qed

lemma fallback_answer_indep:
  assumes "COINMARKETCAP_API_KEY w = COINMARKETCAP_API_KEY w'" "upstream w = upstream w'"
    "requests w = requests w'"
  shows "fst (getBitcoinPriceFromCoinGecko rt (fallback_world rt w)) =
           fst (getBitcoinPriceFromCoinGecko rt (fallback_world rt w'))"
    by (rule coingecko_indep) (simp add: assms)

lemma cmc_requests_alike:
  assumes "COINMARKETCAP_API_KEY w = COINMARKETCAP_API_KEY w'" "upstream w = upstream w'"
    "requests w = requests w'"
  shows "requests (snd (getBitcoinPriceFromCMC rt w)) = requests (snd (getBitcoinPriceFromCMC rt w'))"
    using assms by (simp add: cmc_requests)

lemma coingecko_requests_alike:
  assumes c: "requests (snd (getBitcoinPriceFromCMC rt w)) = requests (snd (getBitcoinPriceFromCMC rt w'))"
  shows "requests (snd (getBitcoinPriceFromCoinGecko rt (fallback_world rt w))) =
           requests (snd (getBitcoinPriceFromCoinGecko rt (fallback_world rt w')))"
    using c by (simp add: coingecko_requests fallback_world_requests)

lemma getBitcoinPrice_requests:
  assumes "COINMARKETCAP_API_KEY w = COINMARKETCAP_API_KEY w'" "upstream w = upstream w'"
    "requests w = requests w'"
  shows "requests (snd (getBitcoinPrice rt w)) = requests (snd (getBitcoinPrice rt w'))"
proof -
  have a: "fst (getBitcoinPriceFromCMC rt w) = fst (getBitcoinPriceFromCMC rt w')"
    using assms(1,2) by (rule cmc_indep)
  note b = fallback_answer_indep [OF assms, of rt]
  note c = cmc_requests_alike [OF assms, of rt]
  note d = coingecko_requests_alike [OF c]
  show ?thesis
    unfolding snd_getBitcoinPrice a b
    by (simp add: requests_emit c d split: sum.splits)
qed

lemma then_res_Inr: "then_res m f = Inr y \<Longrightarrow> \<exists>v. m = Inr v \<and> f v = Inr y"
  by (cases m) (simp_all add: then_res_def)

lemma cmc_record_source: "cmc_record rt d = Inr r \<Longrightarrow> source r = ''CoinMarketCap''"
  unfolding cmc_record_def
  by (auto dest!: then_res_Inr)

lemma coingecko_record_source: "coingecko_record rt d = Inr r \<Longrightarrow> source r = ''CoinGecko''"
  unfolding coingecko_record_def
  by (auto dest!: then_res_Inr)

lemma cmc_source: "fst (getBitcoinPriceFromCMC rt w) = Inr r \<Longrightarrow> source r = ''CoinMarketCap''"
  by (auto simp: fst_cmc fst_cmc_try split: if_splits http_result.splits dest: cmc_record_source)

lemma coingecko_source: "fst (getBitcoinPriceFromCoinGecko rt w) = Inr r \<Longrightarrow> source r = ''CoinGecko''"
  by (auto simp: fst_coingecko fst_coingecko_try split: http_result.splits dest: coingecko_record_source)

section \<open>Facts about \<open>toFixed\<close>\<close>

lemma is_digit_digit: "d < 10 \<Longrightarrow> is_digit (digit d)"
proof -
  assume "d < 10"
  then have "d \<in> {0, 1, 2, 3, 4, 5, 6, 7, 8, 9}" by auto
  then show ?thesis
    by (auto simp: digit_def is_digit_def)
qed

lemma decimal_digits: "decimal n \<noteq> [] \<and> list_all is_digit (decimal n)"
proof (induction n rule: decimal.induct)
  case (1 n)
  show ?case
  proof (cases "n < 10")
    case True
    then show ?thesis
      by (simp add: decimal.simps [of n] is_digit_digit)
  next
    case False
    with 1 show ?thesis
      by (simp add: decimal.simps [of n] is_digit_digit)
  qed
qed

lemma minus_not_digit: "\<not> is_digit (CHR ''-'')"
  by (simp add: is_digit_def)

lemma zero_is_digit: "is_digit (CHR ''0'')"
  by (simp add: is_digit_def)

lemma two_fraction_digitsI:
  assumes "ds \<noteq> []" "list_all is_digit ds" "is_digit a" "is_digit b"
  shows "two_fraction_digits (ds @ [CHR ''.'', a, b])"
    and "two_fraction_digits (CHR ''-'' # ds @ [CHR ''.'', a, b])"
proof -
  from assms obtain c cs where ds: "ds = c # cs" and c: "is_digit c"
    by (cases ds) auto
  then have "c \<noteq> CHR ''-''" using minus_not_digit by auto
  then show "two_fraction_digits (ds @ [CHR ''.'', a, b])"
    using assms by (simp add: two_fraction_digits_def ds)
  show "two_fraction_digits (CHR ''-'' # ds @ [CHR ''.'', a, b])"
    using assms by (simp add: two_fraction_digits_def)
qed

lemma split_last_two:
  assumes "3 \<le> length m" "list_all is_digit m"
  shows "\<exists>ds a b. ds \<noteq> [] \<and> list_all is_digit ds \<and> is_digit a \<and> is_digit b \<and>
           take (length m - 2) m @ ''.'' @ drop (length m - 2) m = ds @ [CHR ''.'', a, b]"
proof -
  let ?ds = "take (length m - 2) m"
  let ?r = "drop (length m - 2) m"
  have len: "length ?r = 2" using assms by simp
  then obtain a b where r: "?r = [a, b]"
    by (metis (no_types, opaque_lifting) One_nat_def Suc_1 length_0_conv length_Suc_conv)
  have "list_all is_digit ?r" using assms(2)
    by (metis append_take_drop_id list_all_append)
  with r have "is_digit a" "is_digit b" by auto
  moreover have "?ds \<noteq> []" using assms by auto
  moreover have "list_all is_digit ?ds" using assms(2)
    by (metis append_take_drop_id list_all_append)
  ultimately show ?thesis using r by auto
qed

lemma toFixed_digits_shape:
  "\<exists>ds a b. ds \<noteq> [] \<and> list_all is_digit ds \<and> is_digit a \<and> is_digit b \<and>
     toFixed_digits 2 x = ds @ [CHR ''.'', a, b]"
proof -
  define n where "n = nat \<lfloor>x * 10 ^ 2 + 1 / 2\<rfloor>"
  define m where "m = (if n = 0 then ''0'' else decimal n)"
  define m' where "m' = (if length m \<le> 2 then replicate (2 + 1 - length m) (CHR ''0'') @ m else m)"
  have m: "m \<noteq> [] \<and> list_all is_digit m"
    using decimal_digits [of n] by (simp add: m_def zero_is_digit)
  have m': "3 \<le> length m' \<and> list_all is_digit m'"
    using m by (auto simp: m'_def zero_is_digit list_all_iff)
  have "toFixed_digits 2 x = take (length m' - 2) m' @ ''.'' @ drop (length m' - 2) m'"
    by (simp add: toFixed_digits_def Let_def n_def m_def m'_def)
  then show ?thesis
    using split_last_two [of m'] m' by simp
qed

lemma toFixed_fixed_range:
  assumes "fixed_range v"
  shows "two_fraction_digits (toFixed rt 2 v)"
proof -
  from assms obtain x where v: "v = Finite x" and x: "\<bar>x\<bar> < 10 ^ 21"
    by (cases v) auto
  define a where "a = (if x < 0 then - x else x)"
  have a: "\<not> 10 ^ 21 \<le> a" using x by (auto simp: a_def)
  obtain ds c d where sh: "ds \<noteq> []" "list_all is_digit ds" "is_digit c" "is_digit d"
      "toFixed_digits 2 a = ds @ [CHR ''.'', c, d]"
    using toFixed_digits_shape [of a] by blast
  show ?thesis
  proof (cases "x < 0")
    case True
    then have "toFixed rt 2 v = CHR ''-'' # ds @ [CHR ''.'', c, d]"
      using a sh(5) by (simp add: v a_def Let_def)
    then show ?thesis using two_fraction_digitsI(2) [OF sh(1-4)] by simp
  next
    case False
    then have "toFixed rt 2 v = ds @ [CHR ''.'', c, d]"
      using a sh(5) by (simp add: v a_def Let_def)
    then show ?thesis using two_fraction_digitsI(1) [OF sh(1-4)] by simp
  qed
qed

lemma read_path_append:
  "read_path v (ks @ ks') = then_res (read_path v ks) (\<lambda>v'. read_path v' ks')"
proof (induction ks arbitrary: v)
  case Nil
  show ?case by (simp add: then_res_def)
next
  case (Cons k ks)
  show ?case
    by (cases "getProp v k") (simp_all add: then_res_def Cons.IH)
qed

lemma read_path_from:
  "read_path v ks = Inr v' \<Longrightarrow> read_path v (ks @ ks') = read_path v' ks'"
  by (simp add: read_path_append then_res_def)

lemma call_toFixed2_Inr:
  "call_toFixed2 rt callee v = Inr s \<Longrightarrow> \<exists>x. v = Some (JNum x) \<and> s = toFixed rt 2 x"
proof (cases v)
  case None
  assume "call_toFixed2 rt callee v = Inr s"
  with None show ?thesis by simp
next
  case (Some j)
  assume "call_toFixed2 rt callee v = Inr s"
  with Some show ?thesis by (cases j) simp_all
qed

lemma cmc_record_fields:
  assumes "cmc_record rt d = Inr r"
  shows "\<exists>p c m. cmc_numbers d = [Inr (Some (JNum p)), Inr (Some (JNum c)), Inr (Some (JNum m))] \<and>
           price r = toFixed rt 2 p \<and> percent_change_24h r = toFixed rt 2 c \<and>
           market_cap r = toFixed rt 2 m"
proof -
  from assms obtain btc vp vc vm vl sp sc sm where
    btc: "read_path (Some d) [''data'', ''BTC''] = Inr btc"
    and vp: "read_path btc [''quote'', ''USD'', ''price''] = Inr vp"
    and vc: "read_path btc [''quote'', ''USD'', ''percent_change_24h''] = Inr vc"
    and vm: "read_path btc [''quote'', ''USD'', ''market_cap''] = Inr vm"
    and sp: "call_toFixed2 rt ''price.toFixed'' vp = Inr sp"
    and sc: "call_toFixed2 rt ''percentChange24h.toFixed'' vc = Inr sc"
    and sm: "call_toFixed2 rt ''marketCap.toFixed'' vm = Inr sm"
    and r: "r = \<lparr>price = sp, percent_change_24h = sc, market_cap = sm,
                 last_updated = vl, source = ''CoinMarketCap''\<rparr>"
    unfolding cmc_record_def
    by (auto dest!: then_res_Inr simp del: read_path.simps)
  from sp sc sm obtain p c m where
    num: "vp = Some (JNum p)" "vc = Some (JNum c)" "vm = Some (JNum m)"
    and str: "sp = toFixed rt 2 p" "sc = toFixed rt 2 c" "sm = toFixed rt 2 m"
    by (auto dest!: call_toFixed2_Inr)
  have "cmc_numbers d = [Inr vp, Inr vc, Inr vm]"
    using read_path_from [OF btc, of "[''quote'', ''USD'', ''price'']"]
      read_path_from [OF btc, of "[''quote'', ''USD'', ''percent_change_24h'']"]
      read_path_from [OF btc, of "[''quote'', ''USD'', ''market_cap'']"] vp vc vm
    by (simp add: cmc_numbers_def)
  then show ?thesis
    using num str r by simp
qed

lemma coingecko_record_fields:
  assumes "coingecko_record rt d = Inr r"
  shows "\<exists>p c m. coingecko_numbers d = [Inr (Some (JNum p)), Inr (Some (JNum c)), Inr (Some (JNum m))] \<and>
           price r = toFixed rt 2 p \<and> percent_change_24h r = toFixed rt 2 c \<and>
           market_cap r = toFixed rt 2 m"
proof -
  from assms obtain btc vp vc vm sp sc sm iso where
    btc: "read_path (Some d) [''bitcoin''] = Inr btc"
    and vp: "read_path btc [''usd''] = Inr vp"
    and vc: "read_path btc [''usd_24h_change''] = Inr vc"
    and vm: "read_path btc [''usd_market_cap''] = Inr vm"
    and sp: "call_toFixed2 rt ''btcData.usd.toFixed'' vp = Inr sp"
    and sc: "call_toFixed2 rt ''btcData.usd_24h_change.toFixed'' vc = Inr sc"
    and sm: "call_toFixed2 rt ''btcData.usd_market_cap.toFixed'' vm = Inr sm"
    and r: "r = \<lparr>price = sp, percent_change_24h = sc, market_cap = sm,
                 last_updated = Some (JStr iso), source = ''CoinGecko''\<rparr>"
    unfolding coingecko_record_def
    by (auto dest!: then_res_Inr simp del: read_path.simps)
  from sp sc sm obtain p c m where
    num: "vp = Some (JNum p)" "vc = Some (JNum c)" "vm = Some (JNum m)"
    and str: "sp = toFixed rt 2 p" "sc = toFixed rt 2 c" "sm = toFixed rt 2 m"
    by (auto dest!: call_toFixed2_Inr)
  have "coingecko_numbers d = [Inr vp, Inr vc, Inr vm]"
    using read_path_from [OF btc, of "[''usd'']"]
      read_path_from [OF btc, of "[''usd_24h_change'']"]
      read_path_from [OF btc, of "[''usd_market_cap'']"] vp vc vm
    by (simp add: coingecko_numbers_def)
  then show ?thesis
    using num str r by simp
qed

section \<open>Facts about the request listener\<close>

lemma writeHead_first:
  "status rs = None \<Longrightarrow> writeHead code hs rs = Inr (rs\<lparr>status := Some code, headers := headers rs @ hs\<rparr>)"
  by (simp add: writeHead_def)

lemma writeHead_second: "status rs = Some c \<Longrightarrow> writeHead code hs rs = Inl HeadersSent"
  by (simp add: writeHead_def)

lemma status_setHeader [simp]: "status (setHeader n v rs) = status rs"
  by (simp add: setHeader_def)

lemma status_new [simp]: "status new_response = None"
  by (simp add: new_response_def)

lemma execute_catch_first:
  assumes "status rs = None" "chunks rs = []"
  shows "replied rt 500 (error_body (message rt e)) (fst (execute_catch rt e rs w))"
    and "heartbeat (fst (execute_catch rt e rs w)) = None"
    and "snd (execute_catch rt e rs w) = emit (ConsoleErrorValue ''Error processing request:'' e) w"
  using assms
  by (simp_all add: execute_catch_def Let_def writeHead_first replied_def finished_def res_end_def)

lemma execute_catch_second:
  assumes "status rs = Some c"
  shows "fst (execute_catch rt e rs w) = escaped HeadersSent rs"
  using assms
  by (simp add: execute_catch_def Let_def writeHead_second)

lemma fst_execute_catch:
  "fst (execute_catch rt e rs w) = fst (execute_catch rt e rs w')"
  by (simp add: execute_catch_def Let_def split: sum.splits)

lemma requests_execute_catch:
  "requests (snd (execute_catch rt e rs w)) = requests w"
  by (simp add: execute_catch_def Let_def requests_emit split: sum.splits)


lemma received_fields [simp]:
  "COINMARKETCAP_API_KEY (received j w) = COINMARKETCAP_API_KEY w"
  "upstream (received j w) = upstream w"
  "requests (received j w) = requests w"
  by (simp_all add: received_def requests_emit)

lemma execute_end_no_name:
  "JSON_parse rt b = Inr request \<Longrightarrow> getProp (Some request) ''name'' = Inl e \<Longrightarrow>
     execute_end rt b rs w = execute_catch rt e rs (received request w)"
  by (simp add: execute_end_def received_def)

lemma execute_end_unknown:
  assumes "JSON_parse rt b = Inr request" "getProp (Some request) ''name'' = Inr name"
    "name \<noteq> Some (JStr ''get-bitcoin-price'')" "status rs = None"
  shows "execute_end rt b rs w =
     (case template_value rt name of
        Inl e \<Rightarrow> execute_catch rt e (rs\<lparr>status := Some 400, headers := headers rs @ json_type\<rparr>)
                   (received request w)
      | Inr s \<Rightarrow>
          (finished (res_end (Some (JSON_stringify rt (error_body (''Unknown tool: '' @ s))))
             (rs\<lparr>status := Some 400, headers := headers rs @ json_type\<rparr>)), received request w))"
  using assms
  by (simp add: execute_end_def received_def writeHead_first split: sum.splits)

lemma execute_end_tool:
  assumes "JSON_parse rt b = Inr request"
    "getProp (Some request) ''name'' = Inr (Some (JStr ''get-bitcoin-price''))" "status rs = None"
  shows "execute_end rt b rs w =
     (case fst (getBitcoinPrice rt (received request w)) of
        Inl e \<Rightarrow> execute_catch rt e rs (snd (getBitcoinPrice rt (received request w)))
      | Inr bitcoinData \<Rightarrow>
          (finished (res_end (Some (JSON_stringify rt (JObj [(''result'', record_json bitcoinData)])))
             (rs\<lparr>status := Some 200, headers := headers rs @ json_type\<rparr>)),
           snd (getBitcoinPrice rt (received request w))))"
proof (cases "getBitcoinPrice rt (received request w)")
  case (Pair out w2)
  then show ?thesis
    using assms
    by (cases out) (simp_all add: execute_end_def received_def [symmetric] writeHead_first)
qed

lemma handle_post_execute:
  "handle rt (post_execute b) w =
     execute_end rt b fresh (emit (ConsoleLog [''Received POST request for /execute'']) w)"
  by (simp add: handle_def post_execute_def fresh_def Let_def)

lemma status_fresh [simp]: "status fresh = None"
  by (simp add: fresh_def)

lemma chunks_fresh [simp]: "chunks fresh = []"
  by (simp add: fresh_def setHeader_def new_response_def)

lemma non_success_replied: "replied rt 500 v h \<Longrightarrow> non_success (res h) \<and> \<not> client_error (res h)"
  by (simp add: replied_def non_success_def client_error_def)


lemma unknown_tool_escape:
  assumes "JSON_parse rt b = Inr request" "getProp (Some request) ''name'' = Inr name"
    "name \<noteq> Some (JStr ''get-bitcoin-price'')" "template_value rt name = Inl e"
  shows "fst (handle rt (post_execute b) w) =
     escaped HeadersSent (fresh\<lparr>status := Some 400, headers := headers fresh @ json_type\<rparr>)"
  using assms
  by (simp add: handle_post_execute execute_end_unknown execute_catch_second)

lemma unknown_tool_reply:
  assumes "JSON_parse rt b = Inr request"
    and "getProp (Some request) ''name'' = Inr name"
    and "name \<noteq> Some (JStr ''get-bitcoin-price'')"
    and "template_value rt name = Inr s"
  shows "replied rt 400 (error_body (''Unknown tool: '' @ s)) (fst (handle rt (post_execute b) w))"
    and "requests (snd (handle rt (post_execute b) w)) = requests w"
  using assms
  by (simp_all add: handle_post_execute execute_end_unknown replied_def finished_def res_end_def
      requests_emit)

lemma quote_plain:
  "c \<noteq> CHR 0x22 \<Longrightarrow> c \<noteq> CHR 0x5C \<Longrightarrow> 32 \<le> (of_char c :: nat) \<Longrightarrow> quote_unit c = [c]"
  by (auto simp: quote_unit_def)

lemma registry_text:
  \<open>JSON_stringify rt mcp =
     ''{"schemaVersion":"2.0","tools":{"get-bitcoin-price":{"description":"Get the curr'' @
     ''ent price of Bitcoin (BTC) in USD","input":{"type":"object","properties":{},"req'' @
     ''uired":[]},"output":{"type":"object","properties":{"price":{"type":"string","des'' @
     ''cription":"Current price of Bitcoin in USD"},"percent_change_24h":{"type":"strin'' @
     ''g","description":"24-hour percent change in Bitcoin price"},"market_cap":{"type"'' @
     '':"string","description":"Current market cap of Bitcoin in USD"},"last_updated":{'' @
     ''"type":"string","description":"Timestamp of when the price was last updated"},"s'' @
     ''ource":{"type":"string","description":"Data source (CoinMarketCap or CoinGecko)"'' @
     ''}},"required":["price","percent_change_24h","market_cap","last_updated","source"'' @
     '']}}}}''\<close>
  by (simp add: mcp_def string_property_def QuoteJSONString_def quote_unit_def)

lemma registry_single_line:
  "CHR 0x0A \<notin> set (JSON_stringify rt mcp) \<and> CHR 0x0D \<notin> set (JSON_stringify rt mcp)"
  unfolding registry_text by simp

lemma sse_payload_data:
  assumes "CHR 0x0A \<notin> set p" "CHR 0x0D \<notin> set p"
  shows "sse_payload (sse_data p) = Some p"
proof -
  let ?P = "\<lambda>c. c \<noteq> CHR 0x0A \<and> c \<noteq> CHR 0x0D"
  have all: "\<forall>c \<in> set (''data: '' @ p). ?P c"
    using assms by auto
  have split: "sse_data p = (''data: '' @ p) @ [CHR 0x0A, CHR 0x0A]"
    by (simp add: sse_data_def)
  have tw: "takeWhile ?P (sse_data p) = ''data: '' @ p"
    unfolding split using all by (subst takeWhile_append2) auto
  have dw: "dropWhile ?P (sse_data p) = [CHR 0x0A, CHR 0x0A]"
    unfolding split using all by (subst dropWhile_append2) auto
  show ?thesis
    unfolding sse_payload_def Let_def tw dw by simp
qed

lemma handle_root:
  "handle rt (get_request ''/'') w =
     (finished (res_end (Some (JSON_stringify rt mcp))
        (fresh\<lparr>status := Some 200, headers := headers fresh @ json_type\<rparr>)),
      emit (ConsoleLog [''Received GET request for /'']) w)"
  by (simp add: handle_def get_request_def fresh_def [symmetric] Let_def writeHead_first)

lemma handle_events:
  "handle rt (get_request ''/events'') w =
     (\<lparr>res = res_write (sse_data (JSON_stringify rt mcp))
         (fresh\<lparr>status := Some 200,
                headers := headers fresh @ [(''Content-Type'', ''text/event-stream''),
                  (''Cache-Control'', ''no-cache''), (''Connection'', ''keep-alive'')]\<rparr>),
       heartbeat = Some 30000, unhandled = None\<rparr>,
      emit (ConsoleLog [''Received GET request for /events'']) w)"
  by (simp add: handle_def get_request_def fresh_def [symmetric] Let_def writeHead_first)









section \<open>Facts about the event stream\<close>


lemma fire_fields [simp]:
  "chunks (sres (fire t s)) = chunks (sres s) @ [heartbeat_chunk]"
  "due (fire t s) = Some (t + max 1 (delay s))"
  "delay (fire t s) = delay s"
  "fired (fire t s) = Suc (fired s)"
  "status (sres (fire t s)) = status (sres s)"
  "ended (sres (fire t s)) = ended (sres s)"
  by (simp_all add: fire_def res_write_def)











section \<open>The examples, evaluated\<close>

lemma decimal_4300010: "decimal 4300010 = ''4300010''"
  by (simp add: decimal.simps digit_def)

lemma toFixed_digits_price: "toFixed_digits 2 (5909888743191347 / 137438953472) = ''43000.10''"
proof -
  have fl: "\<lfloor>(5909888743191347 / 137438953472 :: rat) * 10 ^ 2 + 1 / 2\<rfloor> = 4300010"
    by (simp add: floor_eq_iff)
  show ?thesis
    unfolding toFixed_digits_def Let_def fl by (simp add: decimal_4300010)
qed

lemma toFixed_digits_change: "toFixed_digits 2 (5 / 4) = ''1.25''"
proof -
  have fl: "\<lfloor>(5 / 4 :: rat) * 10 ^ 2 + 1 / 2\<rfloor> = 125"
    by (simp add: floor_eq_iff)
  show ?thesis
    unfolding toFixed_digits_def Let_def fl by (simp add: decimal.simps digit_def)
qed

lemma toFixed_digits_cap: "toFixed_digits 2 850000000000 = ''850000000000.00''"
proof -
  have fl: "\<lfloor>(850000000000 :: rat) * 10 ^ 2 + 1 / 2\<rfloor> = 85000000000000"
    by (simp add: floor_eq_iff)
  show ?thesis
    unfolding toFixed_digits_def Let_def fl by (simp add: decimal.simps digit_def)
qed

lemma toFixed_price: "toFixed rt 2 (Finite (5909888743191347 / 137438953472)) = ''43000.10''"
  using toFixed_digits_price by (simp add: Let_def)

lemma toFixed_change: "toFixed rt 2 (Finite (- (5 / 4))) = ''-1.25''"
  using toFixed_digits_change by (simp add: Let_def)

lemma toFixed_cap: "toFixed rt 2 (Finite 850000000000) = ''850000000000.00''"
  using toFixed_digits_cap by (simp add: Let_def)

lemma toFixed_huge: "toFixed example_runtime 2 (Finite 1000000000000000000000) = ''1e+21''"
  by (simp add: example_runtime_def)

lemma date_example:
  "date_iso example_runtime (Some (JNum (Finite 1700000000))) = Inr ''2023-11-14T22:13:20.000Z''"
  by (simp add: example_runtime_def)

lemma cmc_record_example:
  "cmc_record rt (cmc_payload (Finite 850000000000)) = Inr cmc_answer"
  unfolding cmc_record_def cmc_payload_def
  by (simp add: then_res_def toFixed_price toFixed_change toFixed_cap cmc_answer_def
      del: toFixed.simps)

lemma coingecko_record_example:
  "coingecko_record example_runtime (coingecko_payload (Finite 850000000000)) =
     Inr (coingecko_answer ''850000000000.00'')"
  unfolding coingecko_record_def coingecko_payload_def
  by (simp add: then_res_def toFixed_price toFixed_change toFixed_cap coingecko_answer_def
      date_example del: toFixed.simps)

lemma coingecko_record_huge:
  "coingecko_record example_runtime (coingecko_payload (Finite (10 ^ 21))) =
     Inr (coingecko_answer ''1e+21'')"
  unfolding coingecko_record_def coingecko_payload_def
  by (simp add: then_res_def toFixed_price toFixed_change toFixed_huge coingecko_answer_def
      date_example del: toFixed.simps)

lemma cmc_up: "fst (getBitcoinPriceFromCMC example_runtime world_up) = Inr cmc_answer"
  by (simp add: fst_cmc fst_cmc_try world_up_def falsy_def cmc_record_example)

lemma cmc_no_key:
  "fst (getBitcoinPriceFromCMC rt world_no_key) =
     Inl (Error ''COINMARKETCAP_API_KEY not found in environment variables'')"
  by (simp add: fst_cmc fst_cmc_try world_no_key_def falsy_def)

lemma coingecko_no_key:
  "fst (getBitcoinPriceFromCoinGecko example_runtime world_no_key) =
     Inr (coingecko_answer ''850000000000.00'')"
  by (simp add: fst_coingecko fst_coingecko_try world_no_key_def coingecko_record_example)

lemma cmc_down: "fst (getBitcoinPriceFromCMC rt world_down) = Inl (AxiosError ''Network Error'')"
  by (simp add: fst_cmc fst_cmc_try world_down_def falsy_def)

lemma coingecko_down:
  "fst (getBitcoinPriceFromCoinGecko rt world_down) = Inl (AxiosError ''Network Error'')"
  by (simp add: fst_coingecko fst_coingecko_try world_down_def)

lemma coingecko_huge:
  "fst (getBitcoinPriceFromCoinGecko example_runtime world_huge) = Inr (coingecko_answer ''1e+21'')"
  using coingecko_record_huge by (simp add: fst_coingecko fst_coingecko_try world_huge_def)

lemma cmc_huge:
  "fst (getBitcoinPriceFromCMC rt world_huge) =
     Inl (Error ''COINMARKETCAP_API_KEY not found in environment variables'')"
  by (simp add: fst_cmc fst_cmc_try world_huge_def falsy_def)

lemma parse_examples:
  \<open>JSON_parse example_runtime ''{"name":"get-bitcoin-price","arguments":{}}'' =
     Inr (JObj [(''name'', JStr ''get-bitcoin-price''), (''arguments'', JObj [])])\<close>
  \<open>JSON_parse example_runtime ''{"name":"get-bitcoin-price","arguments":{"currency":"EUR"},"id":7}'' =
     Inr (JObj [(''name'', JStr ''get-bitcoin-price''),
                (''arguments'', JObj [(''currency'', JStr ''EUR'')]),
                (''id'', JNum (Finite 7))])\<close>
  \<open>JSON_parse example_runtime ''{"name":"not-a-real-tool","arguments":{}}'' =
     Inr (JObj [(''name'', JStr ''not-a-real-tool''), (''arguments'', JObj [])])\<close>
  \<open>JSON_parse example_runtime ''{"name":{"toString":1}}'' =
     Inr (JObj [(''name'', JObj [(''toString'', JNum (Finite 1))])])\<close>
  \<open>JSON_parse example_runtime ''null'' = Inr JNull\<close>
  \<open>JSON_parse example_runtime [] = Inl (SyntaxError ''Unexpected end of JSON input'')\<close>
  by (simp_all add: example_runtime_def example_parse_def)

lemma example_empty [simp]:
  "calls_to u world_up = 0" "calls_to u world_no_key = 0" "calls_to u world_down = 0"
  "requests world_up = []" "requests world_no_key = []" "requests world_down = []"
  by (simp_all add: calls_to_def requests_def world_up_def world_no_key_def world_down_def)

lemma malformed_payloads:
  "cmc_record rt (JObj []) = Inl (ReadOfNullish None ''BTC'')"
  "coingecko_record rt (JObj []) = Inl (ReadOfNullish None ''usd'')"
  by (simp_all add: cmc_record_def coingecko_record_def then_res_def)

lemma coingecko_numbers_example:
  "coingecko_numbers (coingecko_payload cap) =
     [Inr (Some (JNum (Finite (5909888743191347 / 137438953472)))),
      Inr (Some (JNum (Finite (- (5 / 4))))),
      Inr (Some (JNum cap))]"
  by (simp add: coingecko_numbers_def coingecko_payload_def then_res_def)

section \<open>The claims\<close>

subsection \<open>C1\<close>

text \<open>
  Claim C1. In every invocation of the fallback lookup in which the primary client
  succeeds, the lookup returns the primary's record and world, the record's source is
  \<open>CoinMarketCap\<close>, exactly one request went to the primary URL, and none to the
  secondary URL.
\<close>

theorem primary_success_no_fallback:
  assumes "getBitcoinPriceFromCMC rt w = (Inr r, w1)"
  shows "getBitcoinPrice rt w = (Inr r, w1) \<and> source r = ''CoinMarketCap'' \<and>
         calls_to COINGECKO_URL w1 = calls_to COINGECKO_URL w \<and>
         calls_to CMC_URL w1 = calls_to CMC_URL w + 1"
proof -
  have run: "getBitcoinPrice rt w = (Inr r, w1)"
    using assms by (simp add: getBitcoinPrice_def)
  have ok: "fst (getBitcoinPriceFromCMC rt w) = Inr r" and w1: "w1 = snd (getBitcoinPriceFromCMC rt w)"
    using assms by simp_all
  have key: "\<not> falsy (COINMARKETCAP_API_KEY w)"
    using ok by (auto simp: fst_cmc fst_cmc_try split: if_splits)
  show ?thesis
    using run cmc_source [OF ok] key urls_differ
    by (simp add: w1 cmc_calls)
qed

theorem primary_success_no_fallback_witness:
  "getBitcoinPrice example_runtime world_up =
     (Inr cmc_answer, snd (getBitcoinPriceFromCMC example_runtime world_up)) \<and>
   source cmc_answer = ''CoinMarketCap'' \<and>
   calls_to COINGECKO_URL (snd (getBitcoinPriceFromCMC example_runtime world_up)) = 0 \<and>
   calls_to CMC_URL (snd (getBitcoinPriceFromCMC example_runtime world_up)) = 1"
proof -
  have h: "getBitcoinPriceFromCMC example_runtime world_up =
      (Inr cmc_answer, snd (getBitcoinPriceFromCMC example_runtime world_up))"
    using cmc_up by (simp add: prod_eq_iff)
  show ?thesis
    using primary_success_no_fallback [OF h] by simp
qed

subsection \<open>C2\<close>

text \<open>
  Claim C2. One invocation of the fallback lookup sends at most one request to each
  provider. When the primary client fails, for whatever reason, exactly one request goes
  to the secondary URL; and when the secondary client then succeeds, the lookup returns
  its record, whose source is \<open>CoinGecko\<close>.
\<close>

theorem fallback_attempted_once:
  "calls_to CMC_URL (snd (getBitcoinPrice rt w)) \<le> calls_to CMC_URL w + 1 \<and>
   calls_to COINGECKO_URL (snd (getBitcoinPrice rt w)) \<le> calls_to COINGECKO_URL w + 1 \<and>
   (\<forall>e. fst (getBitcoinPriceFromCMC rt w) = Inl e \<longrightarrow>
      calls_to COINGECKO_URL (snd (getBitcoinPrice rt w)) = calls_to COINGECKO_URL w + 1 \<and>
      (\<forall>r. fst (getBitcoinPriceFromCoinGecko rt (fallback_world rt w)) = Inr r \<longrightarrow>
         fst (getBitcoinPrice rt w) = Inr r \<and> source r = ''CoinGecko''))"
proof -
  have cmc: "calls_to CMC_URL (snd (getBitcoinPrice rt w)) \<le> calls_to CMC_URL w + 1"
    using urls_differ by (simp add: getBitcoinPrice_calls split: sum.splits)
  have cg: "calls_to COINGECKO_URL (snd (getBitcoinPrice rt w)) \<le> calls_to COINGECKO_URL w + 1"
    using urls_differ by (simp add: getBitcoinPrice_calls split: sum.splits)
  have once: "calls_to COINGECKO_URL (snd (getBitcoinPrice rt w)) = calls_to COINGECKO_URL w + 1"
    if "fst (getBitcoinPriceFromCMC rt w) = Inl e" for e
    using urls_differ that by (simp add: getBitcoinPrice_calls)
  have answer: "fst (getBitcoinPrice rt w) = Inr r \<and> source r = ''CoinGecko''"
    if "fst (getBitcoinPriceFromCMC rt w) = Inl e"
      and "fst (getBitcoinPriceFromCoinGecko rt (fallback_world rt w)) = Inr r" for e r
    using that coingecko_source [of rt "fallback_world rt w" r]
    by (simp add: getBitcoinPrice_cases)
  show ?thesis
    using cmc cg once answer by blast
qed

theorem fallback_attempted_once_witness:
  "fst (getBitcoinPriceFromCMC example_runtime world_no_key) =
     Inl (Error ''COINMARKETCAP_API_KEY not found in environment variables'') \<and>
   calls_to CMC_URL (snd (getBitcoinPrice example_runtime world_no_key)) \<le> 1 \<and>
   calls_to COINGECKO_URL (snd (getBitcoinPrice example_runtime world_no_key)) = 1 \<and>
   fst (getBitcoinPrice example_runtime world_no_key) = Inr (coingecko_answer ''850000000000.00'') \<and>
   source (coingecko_answer ''850000000000.00'') = ''CoinGecko''"
proof -
  have "fst (getBitcoinPriceFromCoinGecko example_runtime (fallback_world example_runtime world_no_key)) =
        fst (getBitcoinPriceFromCoinGecko example_runtime world_no_key)"
    by (rule coingecko_indep) simp
  then have second: "fst (getBitcoinPriceFromCoinGecko example_runtime
      (fallback_world example_runtime world_no_key)) = Inr (coingecko_answer ''850000000000.00'')"
    by (simp add: coingecko_no_key)
  show ?thesis
    using fallback_attempted_once [of example_runtime world_no_key] second
      cmc_no_key [of example_runtime]
    by simp
qed

subsection \<open>C3\<close>

text \<open>
  Claim C3. When both clients fail, the lookup fails with the one error
  \<open>Failed to fetch Bitcoin price\<close>, whatever the two clients' own errors were, and a
  \<open>POST /execute\<close> for the tool is answered with status 500 and the JSON document
  \<open>{error: {message}}\<close> carrying that message; the response is ended and no exception
  escapes the listener.
\<close>

theorem both_providers_fail:
  assumes "fst (getBitcoinPriceFromCMC rt w) = Inl e1"
    and "fst (getBitcoinPriceFromCoinGecko rt w) = Inl e2"
    and "JSON_parse rt b = Inr request"
    and "getProp (Some request) ''name'' = Inr (Some (JStr ''get-bitcoin-price''))"
  shows "fst (getBitcoinPrice rt w) = Inl (Error ''Failed to fetch Bitcoin price'') \<and>
         replied rt 500 (error_body ''Failed to fetch Bitcoin price'')
           (fst (handle rt (post_execute b) w)) \<and>
         non_success (res (fst (handle rt (post_execute b) w)))"
proof -
  let ?w1 = "received request (emit (ConsoleLog [''Received POST request for /execute'']) w)"
  have lookup: "fst (getBitcoinPrice rt w) = Inl (Error ''Failed to fetch Bitcoin price'')"
    using assms(1,2) by (simp add: fst_getBitcoinPrice)
  have "fst (getBitcoinPrice rt ?w1) = fst (getBitcoinPrice rt w)"
    by (rule getBitcoinPrice_indep) simp_all
  then have "handle rt (post_execute b) w =
      execute_catch rt (Error ''Failed to fetch Bitcoin price'') fresh (snd (getBitcoinPrice rt ?w1))"
    using lookup assms(3,4) by (simp add: handle_post_execute execute_end_tool)
  then have "replied rt 500 (error_body ''Failed to fetch Bitcoin price'')
      (fst (handle rt (post_execute b) w))"
    using execute_catch_first(1) [of fresh rt "Error ''Failed to fetch Bitcoin price''"] by simp
  then show ?thesis
    using lookup non_success_replied by blast
qed

theorem both_providers_fail_witness:
  \<open>fst (getBitcoinPrice example_runtime world_down) = Inl (Error ''Failed to fetch Bitcoin price'') \<and>
   replied example_runtime 500 (error_body ''Failed to fetch Bitcoin price'')
     (fst (handle example_runtime (post_execute ''{"name":"get-bitcoin-price","arguments":{}}'') world_down)) \<and>
   non_success
     (res (fst (handle example_runtime (post_execute ''{"name":"get-bitcoin-price","arguments":{}}'') world_down))) \<and>
   JSON_stringify example_runtime (error_body ''Failed to fetch Bitcoin price'') =
     ''{"error":{"message":"Failed to fetch Bitcoin price"}}''\<close>
proof -
  have name: "getProp (Some (JObj [(''name'', JStr ''get-bitcoin-price''), (''arguments'', JObj [])])) ''name'' =
      Inr (Some (JStr ''get-bitcoin-price''))"
    by simp
  show ?thesis
    using both_providers_fail [OF cmc_down coingecko_down parse_examples(1) name]
    by (simp add: error_body_def QuoteJSONString_def quote_unit_def)
qed

subsection \<open>C4\<close>




subsection \<open>C5\<close>

text \<open>
  Claim C5 says that the provider clients turn every failure into one uniform error and
  let no exception of the transport through. A rejected request leaves either client as
  the \<open>AxiosError\<close> it was, and a missing credential as a plain \<open>Error\<close>.
\<close>

theorem provider_errors_counterexample:
  "fst (getBitcoinPriceFromCoinGecko example_runtime world_down) = Inl (AxiosError ''Network Error'') \<and>
   fst (getBitcoinPriceFromCMC example_runtime world_down) = Inl (AxiosError ''Network Error'') \<and>
   fst (getBitcoinPriceFromCMC example_runtime world_no_key) =
     Inl (Error ''COINMARKETCAP_API_KEY not found in environment variables'')"
  by (simp add: cmc_down coingecko_down cmc_no_key)

text \<open>
  Claim C5, amended. Each provider client, on every failure, prints one console line
  with the message of the exception it met and throws that exception unchanged: the
  \<open>Error\<close> for a missing credential, raised before any request is sent (the world gains
  the console line only); after the one request, the \<open>AxiosError\<close> of a rejected request
  or the engine's exception for a payload of the wrong shape. The fallback lookup is
  where they stop: the only error it fails with is \<open>Failed to fetch Bitcoin price\<close>.
\<close>

theorem provider_errors_rethrown:
  "(falsy (COINMARKETCAP_API_KEY w) \<longrightarrow>
      getBitcoinPriceFromCMC rt w =
        (Inl (Error ''COINMARKETCAP_API_KEY not found in environment variables''),
         emit (ConsoleError [''CoinMarketCap API error:'',
                 ''COINMARKETCAP_API_KEY not found in environment variables'']) w)) \<and>
   (\<forall>k m. COINMARKETCAP_API_KEY w = Some k \<and> k \<noteq> [] \<and> upstream w CMC_URL = Rejected m \<longrightarrow>
      getBitcoinPriceFromCMC rt w =
        (Inl (AxiosError m),
         emit (ConsoleError [''CoinMarketCap API error:'', m]) (emit (cmc_request k) w))) \<and>
   (\<forall>k d e. COINMARKETCAP_API_KEY w = Some k \<and> k \<noteq> [] \<and> upstream w CMC_URL = Response d \<and>
      cmc_record rt d = Inl e \<longrightarrow>
      getBitcoinPriceFromCMC rt w =
        (Inl e,
         emit (ConsoleError [''CoinMarketCap API error:'', message rt e]) (emit (cmc_request k) w))) \<and>
   (\<forall>m. upstream w COINGECKO_URL = Rejected m \<longrightarrow>
      getBitcoinPriceFromCoinGecko rt w =
        (Inl (AxiosError m),
         emit (ConsoleError [''CoinGecko API error:'', m]) (emit coingecko_request w))) \<and>
   (\<forall>d e. upstream w COINGECKO_URL = Response d \<and> coingecko_record rt d = Inl e \<longrightarrow>
      getBitcoinPriceFromCoinGecko rt w =
        (Inl e,
         emit (ConsoleError [''CoinGecko API error:'', message rt e]) (emit coingecko_request w))) \<and>
   (\<forall>e. fst (getBitcoinPrice rt w) = Inl e \<longrightarrow> e = Error ''Failed to fetch Bitcoin price'')"
proof -
  have missing: "getBitcoinPriceFromCMC rt w =
        (Inl (Error ''COINMARKETCAP_API_KEY not found in environment variables''),
         emit (ConsoleError [''CoinMarketCap API error:'',
                 ''COINMARKETCAP_API_KEY not found in environment variables'']) w)"
    if "falsy (COINMARKETCAP_API_KEY w)"
    using that by (simp add: getBitcoinPriceFromCMC_def cmc_try_def)
  have cmc_rejected: "getBitcoinPriceFromCMC rt w =
        (Inl (AxiosError m),
         emit (ConsoleError [''CoinMarketCap API error:'', m]) (emit (cmc_request k) w))"
    if "COINMARKETCAP_API_KEY w = Some k" "k \<noteq> []" "upstream w CMC_URL = Rejected m" for k m
  proof -
    have "fst (cmc_try rt w) = Inl (AxiosError m)"
      using that by (simp add: fst_cmc_try falsy_def)
    from cmc_failure [OF this] show ?thesis
      using that by (simp add: snd_cmc_try falsy_def cmc_request_def)
  qed
  have cmc_payload: "getBitcoinPriceFromCMC rt w =
        (Inl e,
         emit (ConsoleError [''CoinMarketCap API error:'', message rt e]) (emit (cmc_request k) w))"
    if "COINMARKETCAP_API_KEY w = Some k" "k \<noteq> []" "upstream w CMC_URL = Response d"
      "cmc_record rt d = Inl e" for k d e
  proof -
    have "fst (cmc_try rt w) = Inl e"
      using that by (simp add: fst_cmc_try falsy_def)
    from cmc_failure [OF this] show ?thesis
      using that by (simp add: snd_cmc_try falsy_def cmc_request_def)
  qed
  have cg_rejected: "getBitcoinPriceFromCoinGecko rt w =
        (Inl (AxiosError m),
         emit (ConsoleError [''CoinGecko API error:'', m]) (emit coingecko_request w))"
    if "upstream w COINGECKO_URL = Rejected m" for m
  proof -
    have "fst (coingecko_try rt w) = Inl (AxiosError m)"
      using that by (simp add: fst_coingecko_try)
    from coingecko_failure [OF this] show ?thesis
      by (simp add: snd_coingecko_try coingecko_request_def)
  qed
  have cg_payload: "getBitcoinPriceFromCoinGecko rt w =
        (Inl e,
         emit (ConsoleError [''CoinGecko API error:'', message rt e]) (emit coingecko_request w))"
    if "upstream w COINGECKO_URL = Response d" "coingecko_record rt d = Inl e" for d e
  proof -
    have "fst (coingecko_try rt w) = Inl e"
      using that by (simp add: fst_coingecko_try)
    from coingecko_failure [OF this] show ?thesis
      by (simp add: snd_coingecko_try coingecko_request_def)
  qed
  have top: "e = Error ''Failed to fetch Bitcoin price''" if "fst (getBitcoinPrice rt w) = Inl e" for e
    using that by (simp add: fst_getBitcoinPrice split: sum.splits)
  show ?thesis
    using missing cmc_rejected cmc_payload cg_rejected cg_payload top by blast
qed

theorem provider_errors_rethrown_witness:
  "getBitcoinPriceFromCMC example_runtime world_no_key =
     (Inl (Error ''COINMARKETCAP_API_KEY not found in environment variables''),
      emit (ConsoleError [''CoinMarketCap API error:'',
              ''COINMARKETCAP_API_KEY not found in environment variables'']) world_no_key) \<and>
   getBitcoinPriceFromCMC example_runtime world_down =
     (Inl (AxiosError ''Network Error''),
      emit (ConsoleError [''CoinMarketCap API error:'', ''Network Error''])
        (emit (cmc_request ''key'') world_down)) \<and>
   getBitcoinPriceFromCoinGecko example_runtime world_down =
     (Inl (AxiosError ''Network Error''),
      emit (ConsoleError [''CoinGecko API error:'', ''Network Error''])
        (emit coingecko_request world_down)) \<and>
   getBitcoinPriceFromCMC example_runtime world_malformed =
     (Inl (ReadOfNullish None ''BTC''),
      emit (ConsoleError [''CoinMarketCap API error:'',
              ''Cannot read properties of undefined (reading '' @ [CHR 0x27] @ ''BTC'' @ [CHR 0x27] @ '')''])
        (emit (cmc_request ''key'') world_malformed)) \<and>
   getBitcoinPriceFromCoinGecko example_runtime world_malformed =
     (Inl (ReadOfNullish None ''usd''),
      emit (ConsoleError [''CoinGecko API error:'',
              ''Cannot read properties of undefined (reading '' @ [CHR 0x27] @ ''usd'' @ [CHR 0x27] @ '')''])
        (emit coingecko_request world_malformed)) \<and>
   fst (getBitcoinPrice example_runtime world_down) = Inl (Error ''Failed to fetch Bitcoin price'')"
proof -
  have no_key: "falsy (COINMARKETCAP_API_KEY world_no_key)"
    by (simp add: world_no_key_def falsy_def)
  have down: "COINMARKETCAP_API_KEY world_down = Some ''key'' \<and> ''key'' \<noteq> [] \<and>
      upstream world_down CMC_URL = Rejected ''Network Error''"
      "upstream world_down COINGECKO_URL = Rejected ''Network Error''"
    by (simp_all add: world_down_def)
  have bad: "COINMARKETCAP_API_KEY world_malformed = Some ''key'' \<and> ''key'' \<noteq> [] \<and>
      upstream world_malformed CMC_URL = Response (JObj []) \<and>
      cmc_record example_runtime (JObj []) = Inl (ReadOfNullish None ''BTC'')"
      "upstream world_malformed COINGECKO_URL = Response (JObj []) \<and>
       coingecko_record example_runtime (JObj []) = Inl (ReadOfNullish None ''usd'')"
    by (simp_all add: world_malformed_def malformed_payloads)
  have msg: "message example_runtime (ReadOfNullish None ''BTC'') =
      ''Cannot read properties of undefined (reading '' @ [CHR 0x27] @ ''BTC'' @ [CHR 0x27] @ '')''"
    "message example_runtime (ReadOfNullish None ''usd'') =
      ''Cannot read properties of undefined (reading '' @ [CHR 0x27] @ ''usd'' @ [CHR 0x27] @ '')''"
    by (simp_all add: example_runtime_def)
  have top: "fst (getBitcoinPrice example_runtime world_down) = Inl (Error ''Failed to fetch Bitcoin price'')"
    by (simp add: fst_getBitcoinPrice cmc_down coingecko_down)
  note A = provider_errors_rethrown [of world_no_key example_runtime]
  note B = provider_errors_rethrown [of world_down example_runtime]
  note C = provider_errors_rethrown [of world_malformed example_runtime]
  have c1: "getBitcoinPriceFromCMC example_runtime world_no_key =
     (Inl (Error ''COINMARKETCAP_API_KEY not found in environment variables''),
      emit (ConsoleError [''CoinMarketCap API error:'',
              ''COINMARKETCAP_API_KEY not found in environment variables'']) world_no_key)"
    using A no_key by blast
  have c2: "getBitcoinPriceFromCMC example_runtime world_down =
     (Inl (AxiosError ''Network Error''),
      emit (ConsoleError [''CoinMarketCap API error:'', ''Network Error''])
        (emit (cmc_request ''key'') world_down))"
    using B down(1) by blast
  have c3: "getBitcoinPriceFromCoinGecko example_runtime world_down =
     (Inl (AxiosError ''Network Error''),
      emit (ConsoleError [''CoinGecko API error:'', ''Network Error''])
        (emit coingecko_request world_down))"
    using B down(2) by blast
  have c4: "getBitcoinPriceFromCMC example_runtime world_malformed =
     (Inl (ReadOfNullish None ''BTC''),
      emit (ConsoleError [''CoinMarketCap API error:'', message example_runtime (ReadOfNullish None ''BTC'')])
        (emit (cmc_request ''key'') world_malformed))"
    using C bad(1) by blast
  have c5: "getBitcoinPriceFromCoinGecko example_runtime world_malformed =
     (Inl (ReadOfNullish None ''usd''),
      emit (ConsoleError [''CoinGecko API error:'', message example_runtime (ReadOfNullish None ''usd'')])
        (emit coingecko_request world_malformed))"
    using C bad(2) by blast
  show ?thesis
    using c1 c2 c3 c4 [unfolded msg] c5 [unfolded msg] top by blast
qed

subsection \<open>C6\<close>

text \<open>
  Claim C6. A body that parses and whose \<open>name\<close> is not the tool's is to be answered with
  the unknown-tool error and status 400, without a crash. The listener breaks this at the
  body \<open>{"name":{"toString":1}}\<close>: it calls \<open>writeHead(400)\<close>, then the template literal
  throws because the name does not convert to a string, then the \<open>writeHead(500)\<close> of the
  \<open>catch\<close> block throws \<open>ERR_HTTP_HEADERS_SENT\<close>, which escapes the listener. Nothing is
  written and the response is never ended.
\<close>

theorem unknown_tool_unconvertible_name:
  \<open>JSON_parse example_runtime ''{"name":{"toString":1}}'' =
     Inr (JObj [(''name'', JObj [(''toString'', JNum (Finite 1))])]) \<and>
   status (res (fst (handle example_runtime (post_execute ''{"name":{"toString":1}}'') world_up))) =
     Some 400 \<and>
   chunks (res (fst (handle example_runtime (post_execute ''{"name":{"toString":1}}'') world_up))) = [] \<and>
   \<not> ended (res (fst (handle example_runtime (post_execute ''{"name":{"toString":1}}'') world_up))) \<and>
   unhandled (fst (handle example_runtime (post_execute ''{"name":{"toString":1}}'') world_up)) =
     Some HeadersSent\<close>
proof -
  have obj: "getProp (Some (JObj [(''name'', JObj [(''toString'', JNum (Finite 1))])])) ''name'' =
      Inr (Some (JObj [(''toString'', JNum (Finite 1))]))"
    by simp
  have thrown: "template_value example_runtime (Some (JObj [(''toString'', JNum (Finite 1))])) = Inl NoPrimitive"
    by (simp add: template_value_def)
  show ?thesis
    using unknown_tool_escape [OF parse_examples(4) obj _ thrown, of world_up]
    by (simp add: parse_examples(4) escaped_def fresh_def setHeader_def new_response_def)
qed

text \<open>
  Where the name converts to a string \<open>s\<close>, and so for every name that is a string, the
  listener answers with status 400 and \<open>{error: {message: "Unknown tool: " + s}}\<close>, ends
  the response, lets no exception escape and calls no provider.
\<close>

theorem unknown_tool_is_400:
  assumes "JSON_parse rt b = Inr request"
    and "getProp (Some request) ''name'' = Inr name"
    and "name \<noteq> Some (JStr ''get-bitcoin-price'')"
    and "template_value rt name = Inr s"
  shows "replied rt 400 (error_body (''Unknown tool: '' @ s)) (fst (handle rt (post_execute b) w)) \<and>
         client_error (res (fst (handle rt (post_execute b) w))) \<and>
         requests (snd (handle rt (post_execute b) w)) = requests w"
  using unknown_tool_reply [OF assms, of w]
  by (simp add: replied_def client_error_def)

theorem unknown_tool_example:
  \<open>replied example_runtime 400 (error_body ''Unknown tool: not-a-real-tool'')
     (fst (handle example_runtime (post_execute ''{"name":"not-a-real-tool","arguments":{}}'') world_up)) \<and>
   client_error
     (res (fst (handle example_runtime (post_execute ''{"name":"not-a-real-tool","arguments":{}}'') world_up))) \<and>
   requests (snd (handle example_runtime (post_execute ''{"name":"not-a-real-tool","arguments":{}}'') world_up)) = [] \<and>
   JSON_stringify example_runtime (error_body ''Unknown tool: not-a-real-tool'') =
     ''{"error":{"message":"Unknown tool: not-a-real-tool"}}''\<close>
proof -
  have name: "getProp (Some (JObj [(''name'', JStr ''not-a-real-tool''), (''arguments'', JObj [])])) ''name'' =
      Inr (Some (JStr ''not-a-real-tool''))"
    by simp
  have shown: "template_value example_runtime (Some (JStr ''not-a-real-tool'')) = Inr ''not-a-real-tool''"
    by (simp add: template_value_def)
  show ?thesis
    using unknown_tool_is_400 [OF parse_examples(3) name _ shown, of world_up]
    by (simp add: error_body_def QuoteJSONString_def quote_unit_def)
qed

subsection \<open>C7\<close>

text \<open>
  Claim C7. The body of the answer to \<open>GET /\<close> is \<open>JSON.stringify\<close> of the registry; the
  only chunk written when \<open>GET /events\<close> opens is a \<open>data\<close> event whose payload is the same
  text; the text does not depend on the runtime; and what the listener answers to either
  request does not depend on the world.
\<close>

theorem discovery_payloads_identical:
  "chunks (res (fst (handle rt (get_request ''/'') w))) = [JSON_stringify rt mcp] \<and>
   map sse_payload (chunks (res (fst (handle rt (get_request ''/events'') w')))) =
     [Some (JSON_stringify rt mcp)] \<and>
   JSON_stringify rt mcp = JSON_stringify rt' mcp \<and>
   fst (handle rt (get_request ''/'') w) = fst (handle rt (get_request ''/'') w') \<and>
   fst (handle rt (get_request ''/events'') w) = fst (handle rt (get_request ''/events'') w')"
proof -
  have "sse_payload (sse_data (JSON_stringify rt mcp)) = Some (JSON_stringify rt mcp)"
    using registry_single_line [of rt] by (simp add: sse_payload_data)
  moreover have "JSON_stringify rt mcp = JSON_stringify rt' mcp"
    by (simp only: registry_text)
  ultimately show ?thesis
    by (simp add: handle_root handle_events finished_def res_end_def res_write_def)
qed

subsection \<open>C8\<close>




subsection \<open>C9\<close>

text \<open>
  Claim C9 says that the numeric fields of every record have exactly two fraction
  digits. For an upstream market capitalisation of \<open>10^21\<close> the field is \<open>1e+21\<close>.
\<close>

theorem huge_value_counterexample:
  "fst (getBitcoinPrice example_runtime world_huge) = Inr (coingecko_answer ''1e+21'') \<and>
   market_cap (coingecko_answer ''1e+21'') = ''1e+21'' \<and>
   \<not> two_fraction_digits (market_cap (coingecko_answer ''1e+21''))"
  by (simp add: fst_getBitcoinPrice cmc_huge coingecko_huge coingecko_answer_def
      two_fraction_digits_def is_digit_def)

text \<open>
  Claim C9, amended. In every record either client builds from a payload, the fields
  \<open>price\<close>, \<open>percent_change_24h\<close> and \<open>market_cap\<close> are \<open>toFixed(2)\<close> of the payload's three
  numbers, and each has exactly two fraction digits when its number is finite and of
  magnitude below \<open>10^21\<close>.
\<close>

theorem two_fraction_digits_in_fixed_range:
  assumes "cmc_record rt d = Inr r \<and> nums = cmc_numbers d \<or>
           coingecko_record rt d = Inr r \<and> nums = coingecko_numbers d"
  shows "\<exists>p c m. nums = [Inr (Some (JNum p)), Inr (Some (JNum c)), Inr (Some (JNum m))] \<and>
           price r = toFixed rt 2 p \<and> percent_change_24h r = toFixed rt 2 c \<and>
           market_cap r = toFixed rt 2 m \<and>
           (fixed_range p \<longrightarrow> two_fraction_digits (price r)) \<and>
           (fixed_range c \<longrightarrow> two_fraction_digits (percent_change_24h r)) \<and>
           (fixed_range m \<longrightarrow> two_fraction_digits (market_cap r))"
proof -
  from assms obtain p c m where
    f: "nums = [Inr (Some (JNum p)), Inr (Some (JNum c)), Inr (Some (JNum m))]"
      "price r = toFixed rt 2 p" "percent_change_24h r = toFixed rt 2 c" "market_cap r = toFixed rt 2 m"
    using cmc_record_fields [of rt d r] coingecko_record_fields [of rt d r] by auto
  show ?thesis
    using f toFixed_fixed_range [of p rt] toFixed_fixed_range [of c rt] toFixed_fixed_range [of m rt]
    by auto
qed

theorem two_fraction_digits_witness:
  "coingecko_record example_runtime (coingecko_payload (Finite 850000000000)) =
     Inr (coingecko_answer ''850000000000.00'') \<and>
   price (coingecko_answer ''850000000000.00'') = ''43000.10'' \<and>
   two_fraction_digits (price (coingecko_answer ''850000000000.00'')) \<and>
   two_fraction_digits (percent_change_24h (coingecko_answer ''850000000000.00'')) \<and>
   two_fraction_digits (market_cap (coingecko_answer ''850000000000.00''))"
proof -
  let ?d = "coingecko_payload (Finite 850000000000)"
  let ?r = "coingecko_answer ''850000000000.00''"
  have h: "cmc_record example_runtime ?d = Inr ?r \<and> coingecko_numbers ?d = cmc_numbers ?d \<or>
           coingecko_record example_runtime ?d = Inr ?r \<and> coingecko_numbers ?d = coingecko_numbers ?d"
    by (simp add: coingecko_record_example)
  obtain p c m where
    nums: "coingecko_numbers ?d = [Inr (Some (JNum p)), Inr (Some (JNum c)), Inr (Some (JNum m))]"
    and fmt: "fixed_range p \<longrightarrow> two_fraction_digits (price ?r)"
      "fixed_range c \<longrightarrow> two_fraction_digits (percent_change_24h ?r)"
      "fixed_range m \<longrightarrow> two_fraction_digits (market_cap ?r)"
    using two_fraction_digits_in_fixed_range [OF h] by blast
  have "p = Finite (5909888743191347 / 137438953472)" "c = Finite (- (5 / 4))" "m = Finite 850000000000"
    using nums by (simp_all add: coingecko_numbers_example)
  then have "fixed_range p" "fixed_range c" "fixed_range m"
    by simp_all
  then show ?thesis
    using fmt by (simp add: coingecko_record_example) (simp add: coingecko_answer_def)
qed

subsection \<open>C10\<close>

text \<open>
  Claim C10. Two \<open>POST /execute\<close> requests whose bodies parse and have the same \<open>name\<close>
  (or both fail to have one) get the same response, arm the same timer, let the same
  exception escape, and cause the same outbound requests, in the same world.
\<close>

theorem arguments_do_not_interfere:
  assumes "JSON_parse rt a = Inr ja" and "JSON_parse rt b = Inr jb"
    and "getProp (Some ja) ''name'' = getProp (Some jb) ''name''"
  shows "fst (handle rt (post_execute a) w) = fst (handle rt (post_execute b) w) \<and>
         requests (snd (handle rt (post_execute a) w)) = requests (snd (handle rt (post_execute b) w))"
proof -
  let ?w = "emit (ConsoleLog [''Received POST request for /execute'']) w"
  let ?wa = "received ja ?w" and ?wb = "received jb ?w"
  have price: "fst (getBitcoinPrice rt ?wa) = fst (getBitcoinPrice rt ?wb)"
    by (rule getBitcoinPrice_indep) simp_all
  have reqs: "requests (snd (getBitcoinPrice rt ?wa)) = requests (snd (getBitcoinPrice rt ?wb))"
    by (rule getBitcoinPrice_requests) simp_all
  show ?thesis
  proof (cases "getProp (Some jb) ''name''")
    case (Inl e)
    then show ?thesis
      using assms fst_execute_catch [of rt e fresh ?wa ?wb]
      by (simp add: handle_post_execute execute_end_no_name requests_execute_catch)
  next
    case (Inr name)
    show ?thesis
    proof (cases "name = Some (JStr ''get-bitcoin-price'')")
      case True
      show ?thesis
      proof (cases "fst (getBitcoinPrice rt ?wb)")
        case failed: (Inl e)
        then show ?thesis
          using assms Inr True price reqs
            fst_execute_catch [of rt e fresh "snd (getBitcoinPrice rt ?wa)" "snd (getBitcoinPrice rt ?wb)"]
          by (simp add: handle_post_execute execute_end_tool requests_execute_catch)
      next
        case answered: (Inr r)
        then show ?thesis
          using assms Inr True price reqs
          by (simp add: handle_post_execute execute_end_tool)
      qed
    next
      case False
      show ?thesis
      proof (cases "template_value rt name")
        case thrown: (Inl e)
        then show ?thesis
          using assms Inr False
            fst_execute_catch [of rt e "fresh\<lparr>status := Some 400, headers := headers fresh @ json_type\<rparr>" ?wa ?wb]
          by (simp add: handle_post_execute execute_end_unknown requests_execute_catch)
      next
        case shown: (Inr s)
        then show ?thesis
          using assms Inr False
          by (simp add: handle_post_execute execute_end_unknown)
      qed
    qed
  qed
qed

theorem arguments_do_not_interfere_witness:
  \<open>fst (handle example_runtime (post_execute ''{"name":"get-bitcoin-price","arguments":{}}'') world_up) =
   fst (handle example_runtime
     (post_execute ''{"name":"get-bitcoin-price","arguments":{"currency":"EUR"},"id":7}'') world_up) \<and>
   requests (snd (handle example_runtime (post_execute ''{"name":"get-bitcoin-price","arguments":{}}'') world_up)) =
   requests (snd (handle example_runtime
     (post_execute ''{"name":"get-bitcoin-price","arguments":{"currency":"EUR"},"id":7}'') world_up))\<close>
proof -
  have same: "getProp (Some (JObj [(''name'', JStr ''get-bitcoin-price''), (''arguments'', JObj [])])) ''name'' =
      getProp (Some (JObj [(''name'', JStr ''get-bitcoin-price''),
                (''arguments'', JObj [(''currency'', JStr ''EUR'')]),
                (''id'', JNum (Finite 7))])) ''name''"
    by simp
  show ?thesis
    using arguments_do_not_interfere [OF parse_examples(1) parse_examples(2) same, of world_up]
    by simp
qed

end
